theory Spec2Isabelle
  imports Main
begin

section \<open>Module constants of certauth.py\<close>

text \<open>Duration of 100 years, in seconds.\<close>

definition CERT_DURATION :: int where
  "CERT_DURATION = 100 * 365 * 24 * 60 * 60"

definition CERTS_DIR :: string where
  "CERTS_DIR = ''./pywb-certs/''"

definition CERT_NAME :: string where
  "CERT_NAME = ''pywb https proxy replay CA''"

definition CERT_CA_FILE :: string where
  "CERT_CA_FILE = ''./pywb-ca.pem''"

section \<open>The objects of the OpenSSL binding\<close>

text \<open>
  The program is Python 2 on top of pyOpenSSL. The binding is not part of the program, so
  its objects are modelled symbolically, in the manner of the public-key models of
  protocol verification: a key is identified by a number, and the generator never makes
  the same key twice; a signature names the public key that verifies it and the
  certificate body it was made over; a PEM stream is the list of its blocks.
\<close>

datatype error = IOError | OSError | ParseError | CryptoFailure

text \<open>
  \<open>IOError\<close> is raised by \<open>open\<close>, \<open>OSError\<close> by \<open>os.mkdir\<close>. Both
  \<open>ParseError\<close> (a \<open>load_*\<close> call that finds no well-formed object) and
  \<open>CryptoFailure\<close> (any other failure of the binding) are \<open>OpenSSL.crypto.Error\<close>
  in the program.
\<close>

datatype key_type = TYPE_RSA | TYPE_DSA

record pkey =
  pkey_type :: key_type
  pkey_bits :: nat
  pkey_material :: nat
  has_private :: bool

definition public_of :: "pkey \<Rightarrow> pkey" where
  "public_of k = k\<lparr>has_private := False\<rparr>"

text \<open>Of an X.509 name the program only ever touches the common name.\<close>

record x509_name =
  CN :: "string option"

datatype ext_data = Conf string | KeyIdentifier pkey

record x509_extension =
  ext_name :: string
  ext_critical :: bool
  ext_value :: ext_data

text \<open>
  The body of a certificate. \<open>version\<close> is the version field, the number handed to
  \<open>set_version\<close> and returned by \<open>get_version\<close>.
\<close>

record tbs_cert =
  version :: int
  serial_number :: int
  subject :: x509_name
  issuer :: x509_name
  notBefore :: "int option"
  notAfter :: "int option"
  pubkey :: "pkey option"
  extensions :: "x509_extension list"

record cert_signature =
  sig_digest :: string
  sig_signer :: pkey
  sig_over :: tbs_cert

record x509 =
  tbs :: tbs_cert
  signature :: "cert_signature option"

record x509_req =
  req_subject :: x509_name
  req_pubkey :: "pkey option"
  req_signed_by :: "pkey option"

text \<open>
  A PEM stream. Text outside a block is skipped by a reader; a block whose armour or
  payload is damaged (a truncated file ends in one) makes the reader fail when it
  reaches it.
\<close>

datatype pem_block =
    PrivateKeyPEM pkey
  | CertificatePEM x509
  | Malformed
  | Text string

section \<open>The world the program runs in\<close>

type_synonym path = string

datatype node = File "pem_block list" | Dir

datatype event =
    OpenRead path
  | OpenWrite path
  | MkDir path
  | KeyGen key_type nat
  | Sign string

text \<open>
  \<open>fs\<close> is the file system, keyed by the path string the program passes;
  \<open>denied\<close> holds the paths at which creating or truncating a file or making a
  directory is refused (missing parent, permissions); \<open>now\<close> is the clock in seconds;
  \<open>py_random\<close> is the stream behind Python's \<open>random\<close> module, with the
  position of the next unused number; \<open>ssl_keys\<close> counts the keys OpenSSL's generator
  has made; \<open>log\<close> records the effects in order.
\<close>

record world =
  fs :: "path \<Rightarrow> node option"
  denied :: "path set"
  now :: int
  py_random :: "nat \<Rightarrow> nat"
  py_pos :: nat
  ssl_keys :: nat
  log :: "event list"

text \<open>
  A call either returns a value or raises; both leave a world behind.
\<close>

type_synonym 'a action = "world \<Rightarrow> (error + 'a) \<times> world"

definition return :: "'a \<Rightarrow> 'a action" where
  "return x = (\<lambda>w. (Inr x, w))"

definition lift :: "error + 'a \<Rightarrow> 'a action" where
  "lift r = (\<lambda>w. (r, w))"

definition and_then :: "'a action \<Rightarrow> ('a \<Rightarrow> 'b action) \<Rightarrow> 'b action" where
  "and_then m f = (\<lambda>w. case m w of
       (Inl e, w') \<Rightarrow> (Inl e, w')
     | (Inr x, w') \<Rightarrow> f x w')"

section \<open>Operations of the binding and of the operating system\<close>

subsection \<open>Files and directories\<close>

definition sep :: string where
  "sep = ''/''"

fun join_str :: "string \<Rightarrow> string list \<Rightarrow> string" where
  "join_str s [] = []"
| "join_str s [x] = x"
| "join_str s (x # y # ys) = x @ s @ join_str s (y # ys)"

definition exists_path :: "path \<Rightarrow> world \<Rightarrow> bool" where
  "exists_path p w = (fs w p \<noteq> None)"

text \<open>\<open>open(p, 'r')\<close>; the handle is the content, which \<open>read\<close> returns whole.\<close>

definition open_read :: "path \<Rightarrow> pem_block list action" where
  "open_read p = (\<lambda>w.
     let w' = w\<lparr>log := log w @ [OpenRead p]\<rparr> in
     case fs w p of
       Some (File content) \<Rightarrow> (Inr content, w')
     | _ \<Rightarrow> (Inl IOError, w'))"

text \<open>\<open>open(p, 'wb+')\<close> creates the file or truncates it.\<close>

definition open_write :: "path \<Rightarrow> unit action" where
  "open_write p = (\<lambda>w.
     let w' = w\<lparr>log := log w @ [OpenWrite p]\<rparr> in
     if p \<in> denied w \<or> fs w p = Some Dir then (Inl IOError, w')
     else (Inr (), w'\<lparr>fs := (fs w)(p \<mapsto> File [])\<rparr>))"

text \<open>\<open>f.write(data)\<close> on a handle opened at \<open>p\<close>.\<close>

definition file_write :: "path \<Rightarrow> pem_block list \<Rightarrow> unit action" where
  "file_write p data = (\<lambda>w.
     case fs w p of
       Some (File content) \<Rightarrow> (Inr (), w\<lparr>fs := (fs w)(p \<mapsto> File (content @ data))\<rparr>)
     | _ \<Rightarrow> (Inl IOError, w))"

definition mkdir :: "path \<Rightarrow> unit action" where
  "mkdir p = (\<lambda>w.
     let w' = w\<lparr>log := log w @ [MkDir p]\<rparr> in
     if p \<in> denied w \<or> fs w p \<noteq> None then (Inl OSError, w')
     else (Inr (), w'\<lparr>fs := (fs w)(p \<mapsto> Dir)\<rparr>))"

subsection \<open>Randomness and time\<close>

text \<open>\<open>random.randint(a, b)\<close>: an integer \<open>N\<close> with \<open>a \<le> N \<le> b\<close>.\<close>

definition randint :: "int \<Rightarrow> int \<Rightarrow> int action" where
  "randint a b = (\<lambda>w.
     (Inr (a + int (py_random w (py_pos w)) mod (b - a + 1)),
      w\<lparr>py_pos := py_pos w + 1\<rparr>))"

subsection \<open>Keys\<close>

text \<open>
  \<open>key = crypto.PKey(); key.generate_key(t, bits)\<close>. The generator is a source of
  fresh keys: the key it makes is identified by the number of keys made before it, so no
  two keys it makes are the same.
\<close>

definition generate_key :: "key_type \<Rightarrow> nat \<Rightarrow> pkey action" where
  "generate_key t bits = (\<lambda>w.
     (Inr \<lparr>pkey_type = t, pkey_bits = bits,
           pkey_material = ssl_keys w, has_private = True\<rparr>,
      w\<lparr>ssl_keys := ssl_keys w + 1, log := log w @ [KeyGen t bits]\<rparr>))"

subsection \<open>Certificates\<close>

definition X509Name_new :: x509_name where
  "X509Name_new = \<lparr>CN = None\<rparr>"

text \<open>
  The binding hands the common name to OpenSSL as a C string of UTF-8 text, so the name
  ends at its first NUL byte. OpenSSL decodes what is left and refuses it when it is not
  UTF-8 or when it has fewer than one or more than sixty-four characters.
\<close>

definition c_string :: "string \<Rightarrow> string" where
  "c_string v = takeWhile (\<lambda>b. b \<noteq> CHR 0x00) v"

text \<open>A continuation byte of UTF-8 is one in \<open>0x80..0xBF\<close>.\<close>

definition continuation :: "char \<Rightarrow> bool" where
  "continuation b = (128 \<le> (of_char b :: nat) \<and> (of_char b :: nat) < 192)"

text \<open>
  The number of characters of a UTF-8 byte string, \<open>None\<close> when the bytes are not
  UTF-8. Sequences of two, three and four bytes are read; an encoding longer than its
  character needs, a surrogate and a character beyond \<open>0x10FFFF\<close> are refused.
\<close>

fun utf8_chars :: "string \<Rightarrow> nat option" where
  "utf8_chars [] = Some 0"
| "utf8_chars (b # bs) =
     (let n = (of_char b :: nat) in
      if n < 128 then map_option Suc (utf8_chars bs)
      else if 194 \<le> n \<and> n < 224 then
        (case bs of
           b1 # r \<Rightarrow> if continuation b1 then map_option Suc (utf8_chars r) else None
         | _ \<Rightarrow> None)
      else if 224 \<le> n \<and> n < 240 then
        (case bs of
           b1 # b2 # r \<Rightarrow>
             if continuation b1 \<and> continuation b2 \<and>
                (n = 224 \<longrightarrow> 160 \<le> (of_char b1 :: nat)) \<and>
                (n = 237 \<longrightarrow> (of_char b1 :: nat) < 160)
             then map_option Suc (utf8_chars r) else None
         | _ \<Rightarrow> None)
      else if 240 \<le> n \<and> n < 245 then
        (case bs of
           b1 # b2 # b3 # r \<Rightarrow>
             if continuation b1 \<and> continuation b2 \<and> continuation b3 \<and>
                (n = 240 \<longrightarrow> 144 \<le> (of_char b1 :: nat)) \<and>
                (n = 244 \<longrightarrow> (of_char b1 :: nat) < 144)
             then map_option Suc (utf8_chars r) else None
         | _ \<Rightarrow> None)
      else None)"

definition cn_accepted :: "string \<Rightarrow> bool" where
  "cn_accepted v =
     (case utf8_chars (c_string v) of
        None \<Rightarrow> False
      | Some n \<Rightarrow> 1 \<le> n \<and> n \<le> 64)"

definition set_CN :: "x509_name \<Rightarrow> string \<Rightarrow> error + x509_name" where
  "set_CN n v =
     (if cn_accepted v then Inr (n\<lparr>CN := Some (c_string v)\<rparr>)
      else Inl CryptoFailure)"

definition X509_new :: x509 where
  "X509_new =
     \<lparr>tbs = \<lparr>version = 0, serial_number = 0, subject = X509Name_new,
             issuer = X509Name_new, notBefore = None, notAfter = None,
             pubkey = None, extensions = []\<rparr>,
      signature = None\<rparr>"

text \<open>
  \<open>c.set_version(v)\<close> stores \<open>v\<close> in the version field, and the field counts
  from zero: 0 stands for X.509 version 1, 2 for version 3.
\<close>

definition set_version :: "x509 \<Rightarrow> int \<Rightarrow> x509" where
  "set_version c v = c\<lparr>tbs := (tbs c)\<lparr>version := v\<rparr>\<rparr>"

definition x509_version :: "x509 \<Rightarrow> int" where
  "x509_version c = version (tbs c) + 1"

definition set_serial_number :: "x509 \<Rightarrow> int \<Rightarrow> x509" where
  "set_serial_number c n = c\<lparr>tbs := (tbs c)\<lparr>serial_number := n\<rparr>\<rparr>"

definition get_subject :: "x509 \<Rightarrow> x509_name" where
  "get_subject c = subject (tbs c)"

text \<open>
  \<open>c.get_subject().CN = v\<close>: the name returned by \<open>get_subject\<close> is the
  certificate's own, so the assignment changes the certificate.
\<close>

definition set_subject_CN :: "x509 \<Rightarrow> string \<Rightarrow> error + x509" where
  "set_subject_CN c v =
     (case set_CN (subject (tbs c)) v of
        Inl e \<Rightarrow> Inl e
      | Inr n \<Rightarrow> Inr (c\<lparr>tbs := (tbs c)\<lparr>subject := n\<rparr>\<rparr>))"

definition set_issuer :: "x509 \<Rightarrow> x509_name \<Rightarrow> x509" where
  "set_issuer c n = c\<lparr>tbs := (tbs c)\<lparr>issuer := n\<rparr>\<rparr>"

definition set_pubkey :: "x509 \<Rightarrow> pkey \<Rightarrow> x509" where
  "set_pubkey c k = c\<lparr>tbs := (tbs c)\<lparr>pubkey := Some (public_of k)\<rparr>\<rparr>"

definition gmtime_adj_notBefore :: "x509 \<Rightarrow> int \<Rightarrow> x509 action" where
  "gmtime_adj_notBefore c d = (\<lambda>w.
     (Inr (c\<lparr>tbs := (tbs c)\<lparr>notBefore := Some (now w + d)\<rparr>\<rparr>), w))"

definition gmtime_adj_notAfter :: "x509 \<Rightarrow> int \<Rightarrow> x509 action" where
  "gmtime_adj_notAfter c d = (\<lambda>w.
     (Inr (c\<lparr>tbs := (tbs c)\<lparr>notAfter := Some (now w + d)\<rparr>\<rparr>), w))"

text \<open>
  \<open>crypto.X509Extension(name, critical, value, subject=s)\<close>. The value
  \<open>hash\<close> of a \<open>subjectKeyIdentifier\<close> is computed from the public key of
  the subject certificate, which must be there.
\<close>

definition X509Extension ::
    "string \<Rightarrow> bool \<Rightarrow> string \<Rightarrow> x509 option \<Rightarrow> error + x509_extension" where
  "X509Extension name critical v subj =
     (if name = ''subjectKeyIdentifier'' \<and> v = ''hash'' then
        (case subj of
           None \<Rightarrow> Inl CryptoFailure
         | Some c \<Rightarrow>
             (case pubkey (tbs c) of
                None \<Rightarrow> Inl CryptoFailure
              | Some k \<Rightarrow>
                  Inr \<lparr>ext_name = name, ext_critical = critical,
                       ext_value = KeyIdentifier k\<rparr>))
      else Inr \<lparr>ext_name = name, ext_critical = critical, ext_value = Conf v\<rparr>)"

definition add_extensions :: "x509 \<Rightarrow> x509_extension list \<Rightarrow> x509" where
  "add_extensions c es = c\<lparr>tbs := (tbs c)\<lparr>extensions := extensions (tbs c) @ es\<rparr>\<rparr>"

text \<open>\<open>c.sign(k, digest)\<close> needs the private half of \<open>k\<close>.\<close>

definition sign :: "x509 \<Rightarrow> pkey \<Rightarrow> string \<Rightarrow> x509 action" where
  "sign c k digest = (\<lambda>w.
     if has_private k then
       (Inr (c\<lparr>signature :=
               Some \<lparr>sig_digest = digest, sig_signer = public_of k, sig_over = tbs c\<rparr>\<rparr>),
        w\<lparr>log := log w @ [Sign digest]\<rparr>)
     else (Inl CryptoFailure, w))"

text \<open>
  Verification of a certificate's signature with a key: the signature was made with the
  private half of that key, over the body the certificate has now.
\<close>

definition verify :: "x509 \<Rightarrow> pkey \<Rightarrow> bool" where
  "verify c k =
     (case signature c of
        None \<Rightarrow> False
      | Some s \<Rightarrow> sig_signer s = public_of k \<and> sig_over s = tbs c)"

subsection \<open>Certificate requests\<close>

definition X509Req_new :: x509_req where
  "X509Req_new = \<lparr>req_subject = X509Name_new, req_pubkey = None, req_signed_by = None\<rparr>"

definition req_set_subject_CN :: "x509_req \<Rightarrow> string \<Rightarrow> error + x509_req" where
  "req_set_subject_CN r v =
     (case set_CN (req_subject r) v of
        Inl e \<Rightarrow> Inl e
      | Inr n \<Rightarrow> Inr (r\<lparr>req_subject := n\<rparr>))"

definition req_set_pubkey :: "x509_req \<Rightarrow> pkey \<Rightarrow> x509_req" where
  "req_set_pubkey r k = r\<lparr>req_pubkey := Some (public_of k)\<rparr>"

definition req_get_pubkey :: "x509_req \<Rightarrow> error + pkey" where
  "req_get_pubkey r = (case req_pubkey r of None \<Rightarrow> Inl CryptoFailure | Some k \<Rightarrow> Inr k)"

definition req_sign :: "x509_req \<Rightarrow> pkey \<Rightarrow> string \<Rightarrow> x509_req action" where
  "req_sign r k digest = (\<lambda>w.
     if has_private k then
       (Inr (r\<lparr>req_signed_by := Some (public_of k)\<rparr>), w\<lparr>log := log w @ [Sign digest]\<rparr>)
     else (Inl CryptoFailure, w))"

subsection \<open>The PEM codec of the binding\<close>

definition dump_privatekey :: "pkey \<Rightarrow> error + pem_block list" where
  "dump_privatekey k = (if has_private k then Inr [PrivateKeyPEM k] else Inl CryptoFailure)"

definition dump_certificate :: "x509 \<Rightarrow> error + pem_block list" where
  "dump_certificate c = Inr [CertificatePEM c]"

text \<open>
  A reader walks the stream to the first block of the kind it wants, passing over text
  and over well-formed blocks of another kind.
\<close>

fun find_certificate :: "pem_block list \<Rightarrow> x509 option" where
  "find_certificate [] = None"
| "find_certificate (CertificatePEM c # bs) = Some c"
| "find_certificate (Malformed # bs) = None"
| "find_certificate (b # bs) = find_certificate bs"

fun find_privatekey :: "pem_block list \<Rightarrow> pkey option" where
  "find_privatekey [] = None"
| "find_privatekey (PrivateKeyPEM k # bs) = Some k"
| "find_privatekey (Malformed # bs) = None"
| "find_privatekey (b # bs) = find_privatekey bs"

definition load_certificate :: "pem_block list \<Rightarrow> error + x509" where
  "load_certificate buf =
     (case find_certificate buf of None \<Rightarrow> Inl ParseError | Some c \<Rightarrow> Inr c)"

definition load_privatekey :: "pem_block list \<Rightarrow> error + pkey" where
  "load_privatekey buf =
     (case find_privatekey buf of None \<Rightarrow> Inl ParseError | Some k \<Rightarrow> Inr k)"

section \<open>The program\<close>

text \<open>
  \<open>if not x: x = d\<close> on an optional string argument: \<open>None\<close> and the empty
  string are the falsy values.
\<close>

definition or_default :: "string option \<Rightarrow> string \<Rightarrow> string" where
  "or_default x d = (case x of None \<Rightarrow> d | Some s \<Rightarrow> if s = [] then d else s)"

subsection \<open>write\_pem and read\_pem\<close>

definition write_pem :: "path \<Rightarrow> x509 \<Rightarrow> pkey \<Rightarrow> unit action" where
  "write_pem filename c k =
     and_then (open_write filename) (\<lambda>_.
     and_then (lift (dump_privatekey k)) (\<lambda>key_pem.
     and_then (file_write filename key_pem) (\<lambda>_.
     and_then (lift (dump_certificate c)) (\<lambda>cert_pem.
     file_write filename cert_pem))))"

text \<open>
  The certificate is read from the whole content, the handle is rewound
  (\<open>f.seek(0)\<close>), and the key is read from the whole content again.
\<close>

definition read_pem :: "path \<Rightarrow> (x509 \<times> pkey) action" where
  "read_pem filename =
     and_then (open_read filename) (\<lambda>content.
     and_then (lift (load_certificate content)) (\<lambda>c.
     and_then (lift (load_privatekey content)) (\<lambda>k.
     return (c, k))))"

subsection \<open>\_make\_cert\<close>

definition make_cert :: "string \<Rightarrow> x509 action" where
  "make_cert certname =
     (let c0 = set_version X509_new 3 in
      and_then (randint 0 (2 ^ 64 - 1)) (\<lambda>r.
      and_then (lift (set_subject_CN (set_serial_number c0 r) certname)) (\<lambda>c1.
      and_then (gmtime_adj_notBefore c1 0) (\<lambda>c2.
      gmtime_adj_notAfter c2 CERT_DURATION))))"

subsection \<open>generate\_ca\_root\<close>

definition generate_ca_root ::
    "string option \<Rightarrow> string option \<Rightarrow> bool \<Rightarrow> (bool \<times> x509 \<times> pkey) action" where
  "generate_ca_root ca_file certname overwrite =
     (let certname' = or_default certname CERT_NAME;
          ca_file' = or_default ca_file CERT_CA_FILE
      in (\<lambda>w.
        if \<not> overwrite \<and> exists_path ca_file' w then
          and_then (read_pem ca_file') (\<lambda>(c, k). return (False, c, k)) w
        else
          and_then (generate_key TYPE_RSA 2048) (\<lambda>k.
          and_then (make_cert certname') (\<lambda>c0.
          let c1 = set_issuer c0 (get_subject c0);
              c2 = set_pubkey c1 k
          in
          and_then (lift (X509Extension ''basicConstraints'' True
                            ''CA:TRUE, pathlen:0'' None)) (\<lambda>e1.
          and_then (lift (X509Extension ''keyUsage'' True
                            ''keyCertSign, cRLSign'' None)) (\<lambda>e2.
          and_then (lift (X509Extension ''subjectKeyIdentifier'' False
                            ''hash'' (Some c2))) (\<lambda>e3.
          and_then (sign (add_extensions c2 [e1, e2, e3]) k ''sha1'') (\<lambda>c3.
          and_then (write_pem ca_file' c3 k) (\<lambda>_.
          return (True, c3, k)))))))) w))"

subsection \<open>generate\_host\_cert\<close>

definition generate_host_cert ::
    "string \<Rightarrow> x509 \<Rightarrow> pkey \<Rightarrow> path \<Rightarrow> (x509 \<times> pkey) action" where
  "generate_host_cert host root_cert root_key host_filename =
     and_then (generate_key TYPE_RSA 2048) (\<lambda>k.
     and_then (lift (req_set_subject_CN X509Req_new host)) (\<lambda>r0.
     and_then (req_sign (req_set_pubkey r0 k) k ''sha1'') (\<lambda>r1.
     and_then (make_cert host) (\<lambda>c0.
     and_then (lift (req_get_pubkey r1)) (\<lambda>pk.
     and_then (sign (set_pubkey (set_issuer c0 (get_subject root_cert)) pk)
                 root_key ''sha1'') (\<lambda>c1.
     and_then (write_pem host_filename c1 k) (\<lambda>_.
     return (c1, k))))))))"

subsection \<open>The CertificateAuthority object\<close>

record certificate_authority =
  self_ca_file :: path
  self_certs_dir :: path
  self_cert :: x509
  self_key :: pkey

definition CertificateAuthority_init ::
    "string option \<Rightarrow> string option \<Rightarrow> certificate_authority action" where
  "CertificateAuthority_init ca_file certs_dir =
     (let ca_file' = or_default ca_file CERT_CA_FILE;
          certs_dir' = or_default certs_dir CERTS_DIR
      in
      and_then (read_pem ca_file') (\<lambda>(c, k).
      let self = \<lparr>self_ca_file = ca_file', self_certs_dir = certs_dir',
                  self_cert = c, self_key = k\<rparr>
      in (\<lambda>w.
        if \<not> exists_path certs_dir' w then
          and_then (mkdir certs_dir') (\<lambda>_. return self) w
        else return self w)))"

definition host_filename_of :: "certificate_authority \<Rightarrow> string \<Rightarrow> path" where
  "host_filename_of self host = join_str sep [self_certs_dir self, host @ ''.pem'']"

definition get_cert_for_host ::
    "certificate_authority \<Rightarrow> string \<Rightarrow> bool \<Rightarrow> (bool \<times> path) action" where
  "get_cert_for_host self host overwrite =
     (let host_filename = host_filename_of self host in (\<lambda>w.
        if \<not> overwrite \<and> exists_path host_filename w then
          return (False, host_filename) w
        else
          and_then (generate_host_cert host (self_cert self) (self_key self) host_filename)
            (\<lambda>_. return (True, host_filename)) w))"

section \<open>Notions the properties are stated with\<close>

text \<open>
  A certificate chains to a root certificate when it names the root's subject as its
  issuer and its signature verifies with the public key the root certificate carries.
\<close>

definition chains_to :: "x509 \<Rightarrow> x509 \<Rightarrow> bool" where
  "chains_to c root =
     (issuer (tbs c) = subject (tbs root) \<and>
      (case pubkey (tbs root) of None \<Rightarrow> False | Some pk \<Rightarrow> verify c pk))"

text \<open>What a later reader finds in the file at a path.\<close>

definition stored_cert :: "world \<Rightarrow> path \<Rightarrow> x509 option" where
  "stored_cert w p =
     (case fs w p of Some (File content) \<Rightarrow> find_certificate content | _ \<Rightarrow> None)"

definition stored_key :: "world \<Rightarrow> path \<Rightarrow> pkey option" where
  "stored_key w p =
     (case fs w p of Some (File content) \<Rightarrow> find_privatekey content | _ \<Rightarrow> None)"

text \<open>
  A file content is malformed for the codec when one of its two readers fails on it.
\<close>

definition malformed :: "pem_block list \<Rightarrow> bool" where
  "malformed content =
     (find_certificate content = None \<or> find_privatekey content = None)"

subsection \<open>Where a path string leads\<close>

text \<open>
  The file system resolves a path string component by component. The lexical
  resolution below is that of \<open>posixpath.normpath\<close>: empty components and
  \<open>.\<close> are dropped, \<open>..\<close> cancels the component before it.
\<close>

fun split_sep :: "string \<Rightarrow> string list" where
  "split_sep [] = [[]]"
| "split_sep (c # cs) =
     (if c = CHR ''/'' then [] # split_sep cs
      else (case split_sep cs of [] \<Rightarrow> [[c]] | x # xs \<Rightarrow> (c # x) # xs))"

fun norm_comps :: "bool \<Rightarrow> string list \<Rightarrow> string list \<Rightarrow> string list" where
  "norm_comps absolute acc [] = acc"
| "norm_comps absolute acc (part # parts) =
     (if part = [] \<or> part = ''.'' then norm_comps absolute acc parts
      else if part = ''..'' \<and> (absolute \<or> acc \<noteq> []) \<and> (acc = [] \<or> last acc \<noteq> ''..'') then
        norm_comps absolute (butlast acc) parts
      else norm_comps absolute (acc @ [part]) parts)"

definition is_absolute :: "path \<Rightarrow> bool" where
  "is_absolute p = (case p of [] \<Rightarrow> False | c # cs \<Rightarrow> c = CHR ''/'')"

definition normpath :: "path \<Rightarrow> string list" where
  "normpath p = norm_comps (is_absolute p) [] (split_sep p)"

text \<open>A path lies inside a directory when it resolves to a place below it.\<close>

definition inside :: "path \<Rightarrow> path \<Rightarrow> bool" where
  "inside d p =
     (is_absolute d = is_absolute p \<and>
      length (normpath d) < length (normpath p) \<and>
      take (length (normpath d)) (normpath p) = normpath d)"

text \<open>A name of ASCII characters only, none of them NUL.\<close>

definition plain_ascii :: "string \<Rightarrow> bool" where
  "plain_ascii v = list_all (\<lambda>b. 0 < (of_char b :: nat) \<and> (of_char b :: nat) < 128) v"

definition has_separator :: "string \<Rightarrow> bool" where
  "has_separator h = (CHR ''/'' \<in> set h)"

subsection \<open>Concrete worlds\<close>

definition example_root_key :: pkey where
  "example_root_key =
     \<lparr>pkey_type = TYPE_RSA, pkey_bits = 2048, pkey_material = 11, has_private = True\<rparr>"

definition example_root_tbs :: tbs_cert where
  "example_root_tbs =
     \<lparr>version = 3, serial_number = 42,
      subject = \<lparr>CN = Some ''Test CA''\<rparr>, issuer = \<lparr>CN = Some ''Test CA''\<rparr>,
      notBefore = Some 0, notAfter = Some CERT_DURATION,
      pubkey = Some (public_of example_root_key), extensions = []\<rparr>"

definition example_root_cert :: x509 where
  "example_root_cert =
     \<lparr>tbs = example_root_tbs,
      signature = Some \<lparr>sig_digest = ''sha1'', sig_signer = public_of example_root_key,
                        sig_over = example_root_tbs\<rparr>\<rparr>"

text \<open>A world with a root file and a cache directory.\<close>

definition example_world :: world where
  "example_world =
     \<lparr>fs = [''ca.pem'' \<mapsto> File [PrivateKeyPEM example_root_key,
                                    CertificatePEM example_root_cert],
            ''certs'' \<mapsto> Dir],
      denied = {}, now = 1000,
      py_random = (\<lambda>i. 5 + i), py_pos = 0,
      ssl_keys = 20,
      log = []\<rparr>"

text \<open>The same world with nothing on disk.\<close>

definition empty_world :: world where
  "empty_world = example_world\<lparr>fs := Map.empty\<rparr>"

text \<open>The same world with a random module that repeats itself.\<close>

definition repeating_world :: world where
  "repeating_world = example_world\<lparr>py_random := (\<lambda>i. 5)\<rparr>"

text \<open>The same world with a root file cut off inside its certificate.\<close>

definition truncated_world :: world where
  "truncated_world =
     example_world\<lparr>fs := [''ca.pem'' \<mapsto> File [PrivateKeyPEM example_root_key, Malformed]]\<rparr>"


text \<open>The same world with the root file at the default path.\<close>

definition default_world :: world where
  "default_world =
     example_world\<lparr>fs := [''./pywb-ca.pem'' \<mapsto>
        File [PrivateKeyPEM example_root_key, CertificatePEM example_root_cert]]\<rparr>"

definition example_ca :: certificate_authority where
  "example_ca =
     \<lparr>self_ca_file = ''ca.pem'', self_certs_dir = ''certs'',
      self_cert = example_root_cert, self_key = example_root_key\<rparr>"

section \<open>Common names the binding accepts\<close>

lemma positive_not_nul: "0 < (of_char b :: nat) \<Longrightarrow> b \<noteq> CHR 0x00"
  by (rule notI) simp

lemma c_string_plain: "plain_ascii v \<Longrightarrow> c_string v = v"
proof (induction v)
  case Nil
  show ?case by (simp add: c_string_def)
next
  case (Cons b v)
  then have "b \<noteq> CHR 0x00" "c_string v = v"
    by (simp_all add: plain_ascii_def positive_not_nul)
  then show ?case
    by (simp add: c_string_def)
qed

lemma utf8_chars_ascii:
  "(of_char b :: nat) < 128 \<Longrightarrow> utf8_chars (b # bs) = map_option Suc (utf8_chars bs)"
  by (simp add: Let_def)

lemma utf8_chars_plain: "plain_ascii v \<Longrightarrow> utf8_chars v = Some (length v)"
proof (induction v)
  case Nil
  show ?case by simp
next
  case (Cons b v)
  then have "(of_char b :: nat) < 128" "utf8_chars v = Some (length v)"
    by (simp_all add: plain_ascii_def)
  then show ?case
    by (simp add: utf8_chars_ascii del: utf8_chars.simps)
qed

lemma cn_accepted_plain:
  "plain_ascii v \<Longrightarrow> cn_accepted v \<longleftrightarrow> 1 \<le> length v \<and> length v \<le> 64"
  by (simp add: cn_accepted_def c_string_plain utf8_chars_plain)

lemma c_string_no_nul: "CHR 0x00 \<notin> set v \<Longrightarrow> c_string v = v"
  by (induction v) (auto simp add: c_string_def)

section \<open>What each operation does, step by step\<close>

text \<open>
  Each lemma of this section runs one operation of the program on an arbitrary world and
  states the outcome in closed form.
\<close>

lemma make_cert_result:
  "make_cert cn w =
     (if cn_accepted cn then
        (Inr \<lparr>tbs = \<lparr>version = 3,
                     serial_number = int (py_random w (py_pos w)) mod 2 ^ 64,
                     subject = \<lparr>CN = Some (c_string cn)\<rparr>, issuer = \<lparr>CN = None\<rparr>,
                     notBefore = Some (now w), notAfter = Some (now w + CERT_DURATION),
                     pubkey = None, extensions = []\<rparr>,
              signature = None\<rparr>,
         w\<lparr>py_pos := py_pos w + 1\<rparr>)
      else (Inl CryptoFailure, w\<lparr>py_pos := py_pos w + 1\<rparr>))"
  by (simp add: make_cert_def and_then_def lift_def randint_def set_subject_CN_def
      set_CN_def set_serial_number_def set_version_def X509_new_def X509Name_new_def
      gmtime_adj_notBefore_def gmtime_adj_notAfter_def Let_def)

lemma write_pem_result:
  "write_pem f c k w =
     (if f \<in> denied w \<or> fs w f = Some Dir then
        (Inl IOError, w\<lparr>log := log w @ [OpenWrite f]\<rparr>)
      else if has_private k then
        (Inr (), w\<lparr>log := log w @ [OpenWrite f],
                   fs := (fs w)(f \<mapsto> File [PrivateKeyPEM k, CertificatePEM c])\<rparr>)
      else
        (Inl CryptoFailure, w\<lparr>log := log w @ [OpenWrite f], fs := (fs w)(f \<mapsto> File [])\<rparr>))"
  by (simp add: write_pem_def and_then_def lift_def open_write_def file_write_def
      dump_privatekey_def dump_certificate_def Let_def)

lemma read_pem_result:
  "read_pem f w =
     (let w' = w\<lparr>log := log w @ [OpenRead f]\<rparr> in
      case fs w f of
        Some (File content) \<Rightarrow>
          (case find_certificate content of
             None \<Rightarrow> (Inl ParseError, w')
           | Some c \<Rightarrow>
               (case find_privatekey content of
                  None \<Rightarrow> (Inl ParseError, w')
                | Some k \<Rightarrow> (Inr (c, k), w')))
      | _ \<Rightarrow> (Inl IOError, w'))"
  by (simp add: read_pem_def and_then_def lift_def return_def open_read_def
      load_certificate_def load_privatekey_def Let_def
      split: option.splits node.splits)

lemma generate_host_cert_iff:
  "generate_host_cert host root_cert root_key fn w = (Inr (c, k), w') \<longleftrightarrow>
     (cn_accepted host \<and> has_private root_key \<and>
      fn \<notin> denied w \<and> fs w fn \<noteq> Some Dir \<and>
      k = \<lparr>pkey_type = TYPE_RSA, pkey_bits = 2048,
           pkey_material = ssl_keys w, has_private = True\<rparr> \<and>
      tbs c = \<lparr>version = 3,
                serial_number = int (py_random w (py_pos w)) mod 2 ^ 64,
                subject = \<lparr>CN = Some (c_string host)\<rparr>, issuer = subject (tbs root_cert),
                notBefore = Some (now w), notAfter = Some (now w + CERT_DURATION),
                pubkey = Some (public_of k), extensions = []\<rparr> \<and>
      signature c = Some \<lparr>sig_digest = ''sha1'', sig_signer = public_of root_key,
                           sig_over = tbs c\<rparr> \<and>
      w' = w\<lparr>ssl_keys := ssl_keys w + 1, py_pos := py_pos w + 1,
             log := log w @ [KeyGen TYPE_RSA 2048, Sign ''sha1'', Sign ''sha1'', OpenWrite fn],
             fs := (fs w)(fn \<mapsto> File [PrivateKeyPEM k, CertificatePEM c])\<rparr>)"
  by (cases c) (auto simp add: generate_host_cert_def and_then_def lift_def return_def
      generate_key_def req_set_subject_CN_def set_CN_def req_sign_def req_set_pubkey_def
      req_get_pubkey_def X509Req_new_def X509Name_new_def make_cert_result
      write_pem_result sign_def set_pubkey_def set_issuer_def get_subject_def
      public_of_def Let_def split: if_splits)

lemma generate_host_cert_succeeds:
  assumes "cn_accepted h" "has_private root_key"
    "fn \<notin> denied w" "fs w fn \<noteq> Some Dir"
  shows "\<exists>c k w'. generate_host_cert h root_cert root_key fn w = (Inr (c, k), w')"
proof -
  define k where "k = \<lparr>pkey_type = TYPE_RSA, pkey_bits = 2048,
      pkey_material = ssl_keys w, has_private = True\<rparr>"
  define body where "body = \<lparr>version = 3,
      serial_number = int (py_random w (py_pos w)) mod 2 ^ 64,
      subject = \<lparr>CN = Some (c_string h)\<rparr>, issuer = subject (tbs root_cert),
      notBefore = Some (now w), notAfter = Some (now w + CERT_DURATION),
      pubkey = Some (public_of k), extensions = []\<rparr>"
  define c where "c = \<lparr>tbs = body,
      signature = Some \<lparr>sig_digest = ''sha1'', sig_signer = public_of root_key,
                        sig_over = body\<rparr>\<rparr>"
  have "\<exists>w'. generate_host_cert h root_cert root_key fn w = (Inr (c, k), w')"
    using assms by (simp add: generate_host_cert_iff c_def body_def k_def)
  then show ?thesis by blast
qed

lemma generate_host_cert_leaves_file:
  "generate_host_cert h root_cert root_key fn w = (Inr (c, k), w') \<Longrightarrow>
   fs w' fn = Some (File [PrivateKeyPEM k, CertificatePEM c])"
  by (simp add: generate_host_cert_iff)

lemma generate_ca_root_existing:
  "\<not> overwrite \<Longrightarrow> exists_path (or_default ca_file CERT_CA_FILE) w \<Longrightarrow>
   generate_ca_root ca_file certname overwrite w =
     (case read_pem (or_default ca_file CERT_CA_FILE) w of
        (Inl e, w') \<Rightarrow> (Inl e, w')
      | (Inr (c, k), w') \<Rightarrow> (Inr (False, c, k), w'))"
  by (simp add: generate_ca_root_def and_then_def return_def Let_def
      split: prod.splits sum.splits)

lemma generate_ca_root_create_iff:
  assumes "overwrite \<or> \<not> exists_path (or_default ca_file CERT_CA_FILE) w"
  shows "generate_ca_root ca_file certname overwrite w = (Inr (created, c, k), w') \<longleftrightarrow>
     (created \<and>
      cn_accepted (or_default certname CERT_NAME) \<and>
      or_default ca_file CERT_CA_FILE \<notin> denied w \<and>
      fs w (or_default ca_file CERT_CA_FILE) \<noteq> Some Dir \<and>
      k = \<lparr>pkey_type = TYPE_RSA, pkey_bits = 2048,
           pkey_material = ssl_keys w, has_private = True\<rparr> \<and>
      tbs c = \<lparr>version = 3,
                serial_number = int (py_random w (py_pos w)) mod 2 ^ 64,
                subject = \<lparr>CN = Some (c_string (or_default certname CERT_NAME))\<rparr>,
                issuer = \<lparr>CN = Some (c_string (or_default certname CERT_NAME))\<rparr>,
                notBefore = Some (now w), notAfter = Some (now w + CERT_DURATION),
                pubkey = Some (public_of k),
                extensions =
                  [\<lparr>ext_name = ''basicConstraints'', ext_critical = True,
                    ext_value = Conf ''CA:TRUE, pathlen:0''\<rparr>,
                   \<lparr>ext_name = ''keyUsage'', ext_critical = True,
                    ext_value = Conf ''keyCertSign, cRLSign''\<rparr>,
                   \<lparr>ext_name = ''subjectKeyIdentifier'', ext_critical = False,
                    ext_value = KeyIdentifier (public_of k)\<rparr>]\<rparr> \<and>
      signature c = Some \<lparr>sig_digest = ''sha1'', sig_signer = public_of k,
                           sig_over = tbs c\<rparr> \<and>
      w' = w\<lparr>ssl_keys := ssl_keys w + 1, py_pos := py_pos w + 1,
             log := log w @ [KeyGen TYPE_RSA 2048, Sign ''sha1'',
                             OpenWrite (or_default ca_file CERT_CA_FILE)],
             fs := (fs w)(or_default ca_file CERT_CA_FILE \<mapsto>
                      File [PrivateKeyPEM k, CertificatePEM c])\<rparr>)"
  using assms
  by (cases c) (auto simp add: generate_ca_root_def and_then_def lift_def return_def
      generate_key_def make_cert_result X509Extension_def add_extensions_def
      write_pem_result sign_def set_pubkey_def set_issuer_def get_subject_def
      public_of_def Let_def split: if_splits)

lemma public_of_idem: "public_of (public_of k) = public_of k"
  by (simp add: public_of_def)

section \<open>The PEM codec\<close>

text \<open>
  C4. Round trip of the codec. When \<open>write_pem\<close> returns, the file holds the private
  key in PEM form immediately followed by the certificate in PEM form, and
  \<open>read_pem\<close> on that file returns the same certificate and the same key, without
  changing any file. \<open>write_pem\<close> does return for a private key at a path that can be
  written.
\<close>

theorem pem_round_trip:
  "(write_pem f c k w = (Inr u, w1) \<longrightarrow>
      (\<exists>key_pem cert_pem.
          dump_privatekey k = Inr key_pem \<and> dump_certificate c = Inr cert_pem \<and>
          fs w1 f = Some (File (key_pem @ cert_pem))) \<and>
      fst (read_pem f w1) = Inr (c, k) \<and>
      fs (snd (read_pem f w1)) = fs w1) \<and>
   (has_private k \<and> f \<notin> denied w \<and> fs w f \<noteq> Some Dir \<longrightarrow>
      (\<exists>w1. write_pem f c k w = (Inr (), w1)))"
  by (auto simp add: write_pem_result read_pem_result dump_privatekey_def
      dump_certificate_def Let_def split: if_splits)

theorem pem_round_trip_witness:
  "fst (write_pem ''out.pem'' example_root_cert example_root_key empty_world) = Inr () \<and>
   fst (read_pem ''out.pem''
         (snd (write_pem ''out.pem'' example_root_cert example_root_key empty_world))) =
     Inr (example_root_cert, example_root_key)"
proof -
  have ok: "has_private example_root_key \<and> ''out.pem'' \<notin> denied empty_world \<and>
      fs empty_world ''out.pem'' \<noteq> Some Dir"
    by (simp add: example_root_key_def empty_world_def example_world_def)
  from pem_round_trip [of "''out.pem''" example_root_cert example_root_key empty_world]
  obtain w1 where w1: "write_pem ''out.pem'' example_root_cert example_root_key empty_world
      = (Inr (), w1)"
    using ok by blast
  with pem_round_trip [of "''out.pem''" example_root_cert example_root_key empty_world "()" w1]
  show ?thesis by simp
qed

section \<open>Issuing a host certificate\<close>

text \<open>
  C1, as stated, fails: for a host name with a NUL byte the common name of the
  certificate is the part of the host name before that byte, not the host name.
\<close>

theorem nul_cuts_common_name:
  "\<exists>c k w'.
     generate_host_cert [CHR ''a'', CHR 0x00, CHR ''b''] example_root_cert example_root_key
       ''certs/x.pem'' example_world = (Inr (c, k), w') \<and>
     CN (subject (tbs c)) = Some ''a'' \<and>
     CN (subject (tbs c)) \<noteq> Some [CHR ''a'', CHR 0x00, CHR ''b'']"
proof -
  have name: "c_string [CHR ''a'', CHR 0x00, CHR ''b''] = ''a''"
    by (simp add: c_string_def)
  have "plain_ascii ''a''" by (simp add: plain_ascii_def)
  then have "cn_accepted ''a''" by (simp add: cn_accepted_plain)
  then have ok: "cn_accepted [CHR ''a'', CHR 0x00, CHR ''b'']"
    by (simp add: cn_accepted_def name c_string_def)
  have "\<exists>c k w'. generate_host_cert [CHR ''a'', CHR 0x00, CHR ''b''] example_root_cert
      example_root_key ''certs/x.pem'' example_world = (Inr (c, k), w')"
    by (rule generate_host_cert_succeeds [OF ok])
      (simp_all add: example_root_key_def example_world_def)
  then obtain c k w' where run: "generate_host_cert [CHR ''a'', CHR 0x00, CHR ''b'']
      example_root_cert example_root_key ''certs/x.pem'' example_world = (Inr (c, k), w')"
    by blast
  then have "CN (subject (tbs c)) = Some ''a''"
    by (simp add: generate_host_cert_iff name)
  with run show ?thesis by auto
qed

text \<open>
  C1, amended. Whenever \<open>generate_host_cert\<close> returns a certificate for a host name,
  the issuer of the certificate is the subject of the root certificate; the common name of
  its subject is the host name up to its first NUL byte, so the host name itself,
  character for character, when it has no NUL byte; the key returned is the 2048-bit RSA
  key generated in this call and the certificate carries its public half; the certificate
  is signed with the root key, so the signature verifies with the root key, and with the
  root certificate whenever that certificate carries the root key's public half. The call
  advances the key generator and the random module by one, signs twice and leaves the key
  followed by the certificate in the file. It does return for a host name of one to
  sixty-four ASCII characters, a private root key and a path that can be written.
\<close>

theorem host_cert_issued_by_root:
  "(generate_host_cert h root_cert root_key fn w = (Inr (c, k), w') \<longrightarrow>
      issuer (tbs c) = subject (tbs root_cert) \<and>
      CN (subject (tbs c)) = Some (c_string h) \<and>
      (CHR 0x00 \<notin> set h \<longrightarrow> CN (subject (tbs c)) = Some h) \<and>
      k = \<lparr>pkey_type = TYPE_RSA, pkey_bits = 2048,
           pkey_material = ssl_keys w, has_private = True\<rparr> \<and>
      pubkey (tbs c) = Some (public_of k) \<and>
      signature c = Some \<lparr>sig_digest = ''sha1'', sig_signer = public_of root_key,
                           sig_over = tbs c\<rparr> \<and>
      verify c root_key \<and>
      (pubkey (tbs root_cert) = Some (public_of root_key) \<longrightarrow> chains_to c root_cert) \<and>
      w' = w\<lparr>ssl_keys := ssl_keys w + 1, py_pos := py_pos w + 1,
             log := log w @ [KeyGen TYPE_RSA 2048, Sign ''sha1'', Sign ''sha1'', OpenWrite fn],
             fs := (fs w)(fn \<mapsto> File [PrivateKeyPEM k, CertificatePEM c])\<rparr>) \<and>
   (plain_ascii h \<and> 1 \<le> length h \<and> length h \<le> 64 \<and> has_private root_key \<and>
    fn \<notin> denied w \<and> fs w fn \<noteq> Some Dir \<longrightarrow>
      (\<exists>c k w'. generate_host_cert h root_cert root_key fn w = (Inr (c, k), w')))"
proof (intro conjI impI)
  assume "plain_ascii h \<and> 1 \<le> length h \<and> length h \<le> 64 \<and> has_private root_key \<and>
    fn \<notin> denied w \<and> fs w fn \<noteq> Some Dir"
  then show "\<exists>c k w'. generate_host_cert h root_cert root_key fn w = (Inr (c, k), w')"
    by (intro generate_host_cert_succeeds) (simp_all add: cn_accepted_plain)
next
  assume "generate_host_cert h root_cert root_key fn w = (Inr (c, k), w')"
    and "CHR 0x00 \<notin> set h"
  then show "CN (subject (tbs c)) = Some h"
    by (simp add: generate_host_cert_iff c_string_no_nul)
qed (auto simp add: generate_host_cert_iff verify_def chains_to_def public_of_idem)

theorem host_cert_issued_by_root_witness:
  "\<exists>c k w'.
     generate_host_cert ''Example.COM'' example_root_cert example_root_key
       ''certs/Example.COM.pem'' example_world = (Inr (c, k), w') \<and>
     issuer (tbs c) = \<lparr>CN = Some ''Test CA''\<rparr> \<and>
     CN (subject (tbs c)) = Some ''Example.COM'' \<and>
     pkey_material k = 20 \<and> ssl_keys w' = 21 \<and>
     pubkey (tbs c) = Some (public_of k) \<and>
     chains_to c example_root_cert \<and>
     fs w' ''certs/Example.COM.pem'' = Some (File [PrivateKeyPEM k, CertificatePEM c])"
proof -
  have ok: "plain_ascii ''Example.COM'' \<and> 1 \<le> length ''Example.COM'' \<and>
      length ''Example.COM'' \<le> 64 \<and> has_private example_root_key \<and>
      ''certs/Example.COM.pem'' \<notin> denied example_world \<and>
      fs example_world ''certs/Example.COM.pem'' \<noteq> Some Dir"
    by (simp add: plain_ascii_def example_root_key_def example_world_def)
  have root: "pubkey (tbs example_root_cert) = Some (public_of example_root_key)"
    by (simp add: example_root_cert_def example_root_tbs_def)
  have subj: "subject (tbs example_root_cert) = \<lparr>CN = Some ''Test CA''\<rparr>"
    by (simp add: example_root_cert_def example_root_tbs_def)
  have gen: "ssl_keys example_world = 20"
    by (simp add: example_world_def)
  have no_nul: "CHR 0x00 \<notin> set ''Example.COM''"
      "c_string ''Example.COM'' = ''Example.COM''"
    by (simp_all add: c_string_def)
  note inst = host_cert_issued_by_root [where h = "''Example.COM''"
      and root_cert = example_root_cert and root_key = example_root_key
      and fn = "''certs/Example.COM.pem''" and w = example_world]
  from ok inst obtain c k w' where run: "generate_host_cert ''Example.COM'' example_root_cert
      example_root_key ''certs/Example.COM.pem'' example_world = (Inr (c, k), w')"
    by blast
  note facts = inst [where c = c and k = k and w' = w', THEN conjunct1, rule_format, OF run]
  show ?thesis
    using run facts root subj gen no_nul
    by (intro exI [of _ c] exI [of _ k] exI [of _ w']) simp
qed

section \<open>The cache of host certificates\<close>

lemma host_filename_of_eq:
  "host_filename_of self h = self_certs_dir self @ ''/'' @ h @ ''.pem''"
  by (simp add: host_filename_of_def sep_def)

lemma get_cert_for_host_cached:
  "\<not> overwrite \<Longrightarrow> exists_path (host_filename_of self h) w \<Longrightarrow>
   get_cert_for_host self h overwrite w = (Inr (False, host_filename_of self h), w)"
  by (simp add: get_cert_for_host_def return_def Let_def)

lemma get_cert_for_host_issue_iff:
  "overwrite \<or> \<not> exists_path (host_filename_of self h) w \<Longrightarrow>
   get_cert_for_host self h overwrite w = (Inr (created, p), w') \<longleftrightarrow>
     (created \<and> p = host_filename_of self h \<and>
      (\<exists>c k. generate_host_cert h (self_cert self) (self_key self)
                (host_filename_of self h) w = (Inr (c, k), w')))"
  by (auto simp add: get_cert_for_host_def and_then_def return_def Let_def
      split: prod.splits sum.splits)

text \<open>
  C2. When \<open>get_cert_for_host\<close> without overwrite has returned for a host name, a
  second call without overwrite returns the same path with \<open>created\<close> false and
  leaves the world exactly as it found it: no key is generated, nothing is signed, no
  file is opened or written, and the file at the path is there with the content it had.
\<close>

theorem get_cert_for_host_idempotent:
  "get_cert_for_host self h False w = (Inr (created, p), w1) \<longrightarrow>
     p = host_filename_of self h \<and>
     exists_path p w1 \<and>
     get_cert_for_host self h False w1 = (Inr (False, p), w1)"
proof
  assume first: "get_cert_for_host self h False w = (Inr (created, p), w1)"
  have there: "p = host_filename_of self h \<and> exists_path p w1"
  proof (cases "exists_path (host_filename_of self h) w")
    case True
    with first show ?thesis
      by (simp add: get_cert_for_host_cached)
  next
    case False
    with first obtain c k where
      "p = host_filename_of self h"
      "generate_host_cert h (self_cert self) (self_key self) p w = (Inr (c, k), w1)"
      by (auto simp add: get_cert_for_host_issue_iff)
    then show ?thesis
      by (simp add: exists_path_def generate_host_cert_leaves_file)
  qed
  then show "p = host_filename_of self h \<and> exists_path p w1 \<and>
     get_cert_for_host self h False w1 = (Inr (False, p), w1)"
    by (auto simp add: get_cert_for_host_cached)
qed

lemma example_first_issue:
  "\<exists>w1. get_cert_for_host example_ca ''a.test'' False example_world =
     (Inr (True, ''certs/a.test.pem''), w1)"
proof -
  have fn: "host_filename_of example_ca ''a.test'' = ''certs/a.test.pem''"
    by (simp add: host_filename_of_eq example_ca_def)
  have absent: "\<not> exists_path ''certs/a.test.pem'' example_world"
    by (simp add: exists_path_def example_world_def)
  have "\<exists>c k w1. generate_host_cert ''a.test'' (self_cert example_ca) (self_key example_ca)
      ''certs/a.test.pem'' example_world = (Inr (c, k), w1)"
    by (rule generate_host_cert_succeeds)
      (simp_all add: cn_accepted_plain plain_ascii_def example_ca_def example_root_key_def
        example_world_def)
  then show ?thesis
    using absent by (auto simp add: get_cert_for_host_issue_iff fn)
qed

theorem get_cert_for_host_idempotent_witness:
  "fst (get_cert_for_host example_ca ''a.test'' False example_world) =
     Inr (True, ''certs/a.test.pem'') \<and>
   get_cert_for_host example_ca ''a.test'' False
     (snd (get_cert_for_host example_ca ''a.test'' False example_world)) =
     (Inr (False, ''certs/a.test.pem''),
      snd (get_cert_for_host example_ca ''a.test'' False example_world))"
proof -
  from example_first_issue obtain w1 where
    first: "get_cert_for_host example_ca ''a.test'' False example_world =
      (Inr (True, ''certs/a.test.pem''), w1)" ..
  with get_cert_for_host_idempotent [of example_ca "''a.test''" example_world True
      "''certs/a.test.pem''" w1]
  show ?thesis by simp
qed

lemma stored_after_issue:
  "generate_host_cert h root_cert root_key fn w = (Inr (c, k), w') \<Longrightarrow>
   stored_cert w' fn = Some c \<and> stored_key w' fn = Some k"
  by (simp add: stored_cert_def stored_key_def generate_host_cert_leaves_file)

lemma overwrite_twice_returns:
  assumes "cn_accepted h" "has_private (self_key self)"
    and "host_filename_of self h \<notin> denied w" "fs w (host_filename_of self h) \<noteq> Some Dir"
  shows "\<exists>w1 w2.
     get_cert_for_host self h True w = (Inr (True, host_filename_of self h), w1) \<and>
     get_cert_for_host self h True w1 = (Inr (True, host_filename_of self h), w2)"
proof -
  let ?fn = "host_filename_of self h"
  from assms obtain c1 k1 w1 where
    g1: "generate_host_cert h (self_cert self) (self_key self) ?fn w = (Inr (c1, k1), w1)"
    using generate_host_cert_succeeds [of h "self_key self" ?fn w "self_cert self"] by blast
  then have "denied w1 = denied w" "fs w1 ?fn \<noteq> Some Dir"
    by (simp_all add: generate_host_cert_iff)
  with assms obtain c2 k2 w2 where
    g2: "generate_host_cert h (self_cert self) (self_key self) ?fn w1 = (Inr (c2, k2), w2)"
    using generate_host_cert_succeeds [of h "self_key self" ?fn w1 "self_cert self"] by auto
  from g1 g2 show ?thesis
    by (auto simp add: get_cert_for_host_issue_iff)
qed

text \<open>
  C8, as stated, fails: with a random module that repeats itself, two calls with overwrite
  both return \<open>created\<close> true and the same path, and the second certificate has the
  serial number of the first.
\<close>

theorem overwrite_twice_same_serial:
  "\<exists>w1 w2 c1 c2.
     get_cert_for_host example_ca ''a.test'' True repeating_world =
       (Inr (True, ''certs/a.test.pem''), w1) \<and>
     get_cert_for_host example_ca ''a.test'' True w1 =
       (Inr (True, ''certs/a.test.pem''), w2) \<and>
     stored_cert w1 ''certs/a.test.pem'' = Some c1 \<and>
     stored_cert w2 ''certs/a.test.pem'' = Some c2 \<and>
     serial_number (tbs c1) = 5 \<and> serial_number (tbs c2) = 5"
proof -
  have fn: "host_filename_of example_ca ''a.test'' = ''certs/a.test.pem''"
    by (simp add: host_filename_of_eq example_ca_def)
  have "\<exists>w1 w2.
     get_cert_for_host example_ca ''a.test'' True repeating_world =
       (Inr (True, host_filename_of example_ca ''a.test''), w1) \<and>
     get_cert_for_host example_ca ''a.test'' True w1 =
       (Inr (True, host_filename_of example_ca ''a.test''), w2)"
  proof (rule overwrite_twice_returns)
    show "cn_accepted ''a.test''"
      by (simp add: cn_accepted_plain plain_ascii_def)
    show "has_private (self_key example_ca)"
      by (simp add: example_ca_def example_root_key_def)
    show "host_filename_of example_ca ''a.test'' \<notin> denied repeating_world"
      by (simp add: repeating_world_def example_world_def)
    show "fs repeating_world (host_filename_of example_ca ''a.test'') \<noteq> Some Dir"
      by (simp add: fn repeating_world_def example_world_def)
  qed
  then obtain w1 w2 where
    r1: "get_cert_for_host example_ca ''a.test'' True repeating_world =
      (Inr (True, ''certs/a.test.pem''), w1)" and
    r2: "get_cert_for_host example_ca ''a.test'' True w1 =
      (Inr (True, ''certs/a.test.pem''), w2)"
    by (auto simp add: fn)
  from r1 obtain c1 k1 where g1: "generate_host_cert ''a.test'' (self_cert example_ca)
      (self_key example_ca) ''certs/a.test.pem'' repeating_world = (Inr (c1, k1), w1)"
    by (auto simp add: get_cert_for_host_issue_iff fn)
  from r2 obtain c2 k2 where g2: "generate_host_cert ''a.test'' (self_cert example_ca)
      (self_key example_ca) ''certs/a.test.pem'' w1 = (Inr (c2, k2), w2)"
    by (auto simp add: get_cert_for_host_issue_iff fn)
  have src: "py_random w1 = (\<lambda>i. 5)"
    using g1 by (simp add: generate_host_cert_iff repeating_world_def example_world_def)
  have s1: "serial_number (tbs c1) = 5"
    using g1 by (simp add: generate_host_cert_iff repeating_world_def example_world_def)
  have s2: "serial_number (tbs c2) = 5"
    using g2 by (simp add: generate_host_cert_iff src)
  show ?thesis
    using r1 r2 stored_after_issue [OF g1] stored_after_issue [OF g2] s1 s2
    by (intro exI [of _ w1] exI [of _ w2] exI [of _ c1] exI [of _ c2]) simp
qed

text \<open>
  C8, amended. Two calls with overwrite that return both report \<open>created\<close> true and
  the same path, and each leaves its certificate and key in the file. The two keys are
  different keys, each generated in its own call, and each certificate carries the public
  half of its own key. Each certificate draws its serial number as the next unused number
  of the random module, so the serial numbers differ whenever the two draws differ;
  nothing compares them. Both certificates name the root's subject as issuer and are
  signed with the root key, so both chain to the root certificate when it carries the
  root key's public half. Both calls do return for a host name of one to sixty-four
  ASCII characters, a private root key and a path that can be written.
\<close>

theorem overwrite_twice_fresh_draws:
  "(get_cert_for_host self h True w = (Inr (created1, p1), w1) \<and>
    get_cert_for_host self h True w1 = (Inr (created2, p2), w2) \<longrightarrow>
     created1 \<and> created2 \<and> p1 = host_filename_of self h \<and> p2 = p1 \<and>
     (\<exists>c1 k1 c2 k2.
        stored_cert w1 p1 = Some c1 \<and> stored_key w1 p1 = Some k1 \<and>
        stored_cert w2 p1 = Some c2 \<and> stored_key w2 p1 = Some k2 \<and>
        k1 \<noteq> k2 \<and> pkey_material k1 \<noteq> pkey_material k2 \<and>
        pkey_material k1 = ssl_keys w \<and> pkey_material k2 = ssl_keys w + 1 \<and>
        pubkey (tbs c1) = Some (public_of k1) \<and> pubkey (tbs c2) = Some (public_of k2) \<and>
        pubkey (tbs c1) \<noteq> pubkey (tbs c2) \<and>
        serial_number (tbs c1) = int (py_random w (py_pos w)) mod 2 ^ 64 \<and>
        serial_number (tbs c2) = int (py_random w (py_pos w + 1)) mod 2 ^ 64 \<and>
        issuer (tbs c1) = subject (tbs (self_cert self)) \<and>
        issuer (tbs c2) = subject (tbs (self_cert self)) \<and>
        verify c1 (self_key self) \<and> verify c2 (self_key self) \<and>
        (pubkey (tbs (self_cert self)) = Some (public_of (self_key self)) \<longrightarrow>
           chains_to c1 (self_cert self) \<and> chains_to c2 (self_cert self)))) \<and>
   (plain_ascii h \<and> 1 \<le> length h \<and> length h \<le> 64 \<and> has_private (self_key self) \<and>
    host_filename_of self h \<notin> denied w \<and> fs w (host_filename_of self h) \<noteq> Some Dir \<longrightarrow>
     (\<exists>w1 w2.
        get_cert_for_host self h True w = (Inr (True, host_filename_of self h), w1) \<and>
        get_cert_for_host self h True w1 = (Inr (True, host_filename_of self h), w2)))"
proof (intro conjI impI)
  assume "plain_ascii h \<and> 1 \<le> length h \<and> length h \<le> 64 \<and> has_private (self_key self) \<and>
    host_filename_of self h \<notin> denied w \<and> fs w (host_filename_of self h) \<noteq> Some Dir"
  then show "\<exists>w1 w2.
      get_cert_for_host self h True w = (Inr (True, host_filename_of self h), w1) \<and>
      get_cert_for_host self h True w1 = (Inr (True, host_filename_of self h), w2)"
    by (intro overwrite_twice_returns) (simp_all add: cn_accepted_plain)
next
  assume both: "get_cert_for_host self h True w = (Inr (created1, p1), w1) \<and>
    get_cert_for_host self h True w1 = (Inr (created2, p2), w2)"
  let ?fn = "host_filename_of self h"
  from both obtain c1 k1 where
    r1: "created1" "p1 = ?fn" and
    g1: "generate_host_cert h (self_cert self) (self_key self) ?fn w = (Inr (c1, k1), w1)"
    by (auto simp add: get_cert_for_host_issue_iff)
  from both obtain c2 k2 where
    r2: "created2" "p2 = ?fn" and
    g2: "generate_host_cert h (self_cert self) (self_key self) ?fn w1 = (Inr (c2, k2), w2)"
    by (auto simp add: get_cert_for_host_issue_iff)
  have next_draws: "py_random w1 = py_random w" "py_pos w1 = py_pos w + 1"
      "ssl_keys w1 = ssl_keys w + 1"
    using g1 by (simp_all add: generate_host_cert_iff)
  have first: "serial_number (tbs c1) = int (py_random w (py_pos w)) mod 2 ^ 64"
      "pkey_material k1 = ssl_keys w"
      "issuer (tbs c1) = subject (tbs (self_cert self))" "verify c1 (self_key self)"
      "pubkey (tbs c1) = Some (public_of k1)"
    using g1 by (simp_all add: generate_host_cert_iff verify_def)
  have second: "serial_number (tbs c2) = int (py_random w (py_pos w + 1)) mod 2 ^ 64"
      "pkey_material k2 = ssl_keys w + 1"
      "issuer (tbs c2) = subject (tbs (self_cert self))" "verify c2 (self_key self)"
      "pubkey (tbs c2) = Some (public_of k2)"
    using g2 next_draws by (simp_all add: generate_host_cert_iff verify_def)
  have chain: "pubkey (tbs (self_cert self)) = Some (public_of (self_key self)) \<longrightarrow>
      chains_to c1 (self_cert self) \<and> chains_to c2 (self_cert self)"
    using first(3,4) second(3,4)
    by (auto simp add: chains_to_def verify_def public_of_idem split: option.splits)
  have material: "pkey_material k1 \<noteq> pkey_material k2"
    using first(2) second(2) by simp
  then have differ: "k1 \<noteq> k2" by auto
  from material have "pkey_material (public_of k1) \<noteq> pkey_material (public_of k2)"
    by (simp add: public_of_def)
  then have "public_of k1 \<noteq> public_of k2" by auto
  then have public: "pubkey (tbs c1) \<noteq> pubkey (tbs c2)"
    using first(5) second(5) by simp
  show "created1" "created2" "p1 = host_filename_of self h" "p2 = p1"
    using r1 r2 by simp_all
  show "\<exists>c1 k1 c2 k2.
        stored_cert w1 p1 = Some c1 \<and> stored_key w1 p1 = Some k1 \<and>
        stored_cert w2 p1 = Some c2 \<and> stored_key w2 p1 = Some k2 \<and>
        k1 \<noteq> k2 \<and> pkey_material k1 \<noteq> pkey_material k2 \<and>
        pkey_material k1 = ssl_keys w \<and> pkey_material k2 = ssl_keys w + 1 \<and>
        pubkey (tbs c1) = Some (public_of k1) \<and> pubkey (tbs c2) = Some (public_of k2) \<and>
        pubkey (tbs c1) \<noteq> pubkey (tbs c2) \<and>
        serial_number (tbs c1) = int (py_random w (py_pos w)) mod 2 ^ 64 \<and>
        serial_number (tbs c2) = int (py_random w (py_pos w + 1)) mod 2 ^ 64 \<and>
        issuer (tbs c1) = subject (tbs (self_cert self)) \<and>
        issuer (tbs c2) = subject (tbs (self_cert self)) \<and>
        verify c1 (self_key self) \<and> verify c2 (self_key self) \<and>
        (pubkey (tbs (self_cert self)) = Some (public_of (self_key self)) \<longrightarrow>
           chains_to c1 (self_cert self) \<and> chains_to c2 (self_cert self))"
    using r1 r2 stored_after_issue [OF g1] stored_after_issue [OF g2]
      first second chain differ material public
    by (intro exI [of _ c1] exI [of _ k1] exI [of _ c2] exI [of _ k2]) simp
qed

theorem overwrite_twice_fresh_draws_witness:
  "\<exists>w1 w2 c1 k1 c2 k2.
     get_cert_for_host example_ca ''a.test'' True example_world =
       (Inr (True, ''certs/a.test.pem''), w1) \<and>
     get_cert_for_host example_ca ''a.test'' True w1 =
       (Inr (True, ''certs/a.test.pem''), w2) \<and>
     stored_cert w1 ''certs/a.test.pem'' = Some c1 \<and>
     stored_cert w2 ''certs/a.test.pem'' = Some c2 \<and>
     stored_key w1 ''certs/a.test.pem'' = Some k1 \<and>
     stored_key w2 ''certs/a.test.pem'' = Some k2 \<and>
     serial_number (tbs c1) = 5 \<and> serial_number (tbs c2) = 6 \<and>
     pkey_material k1 = 20 \<and> pkey_material k2 = 21 \<and> k1 \<noteq> k2 \<and>
     chains_to c1 example_root_cert \<and> chains_to c2 example_root_cert"
proof -
  have fn: "host_filename_of example_ca ''a.test'' = ''certs/a.test.pem''"
    by (simp add: host_filename_of_eq example_ca_def)
  have pre: "plain_ascii ''a.test'' \<and> 1 \<le> length ''a.test'' \<and> length ''a.test'' \<le> 64 \<and>
      has_private (self_key example_ca) \<and>
      host_filename_of example_ca ''a.test'' \<notin> denied example_world \<and>
      fs example_world (host_filename_of example_ca ''a.test'') \<noteq> Some Dir"
  proof (intro conjI)
    show "plain_ascii ''a.test''" by (simp add: plain_ascii_def)
    show "has_private (self_key example_ca)"
      by (simp add: example_ca_def example_root_key_def)
    show "host_filename_of example_ca ''a.test'' \<notin> denied example_world"
      by (simp add: example_world_def)
    show "fs example_world (host_filename_of example_ca ''a.test'') \<noteq> Some Dir"
      by (simp add: fn example_world_def)
  qed simp_all
  note inst = overwrite_twice_fresh_draws [where self = example_ca and h = "''a.test''"
      and w = example_world]
  from pre inst obtain w1 w2 where
    runs: "get_cert_for_host example_ca ''a.test'' True example_world =
        (Inr (True, ''certs/a.test.pem''), w1) \<and>
      get_cert_for_host example_ca ''a.test'' True w1 =
        (Inr (True, ''certs/a.test.pem''), w2)"
    unfolding fn by blast
  have root: "pubkey (tbs (self_cert example_ca)) = Some (public_of (self_key example_ca))"
      "self_cert example_ca = example_root_cert"
    by (simp_all add: example_ca_def example_root_cert_def example_root_tbs_def)
  have draws: "int (py_random example_world (py_pos example_world)) mod 2 ^ 64 = 5"
      "int (py_random example_world (py_pos example_world + 1)) mod 2 ^ 64 = 6"
      "ssl_keys example_world = 20"
    by (simp_all add: example_world_def)
  from runs inst [where ?created1.0 = True and ?p1.0 = "''certs/a.test.pem''" and ?w1.0 = w1
      and ?created2.0 = True and ?p2.0 = "''certs/a.test.pem''" and ?w2.0 = w2]
  obtain c1 k1 c2 k2 where
    "stored_cert w1 ''certs/a.test.pem'' = Some c1"
    "stored_key w1 ''certs/a.test.pem'' = Some k1"
    "stored_cert w2 ''certs/a.test.pem'' = Some c2"
    "stored_key w2 ''certs/a.test.pem'' = Some k2"
    "k1 \<noteq> k2"
    "serial_number (tbs c1) = int (py_random example_world (py_pos example_world)) mod 2 ^ 64"
    "serial_number (tbs c2) =
       int (py_random example_world (py_pos example_world + 1)) mod 2 ^ 64"
    "pkey_material k1 = ssl_keys example_world"
    "pkey_material k2 = ssl_keys example_world + 1"
    "chains_to c1 (self_cert example_ca)" "chains_to c2 (self_cert example_ca)"
    using root(1) by blast
  with runs draws root(2) show ?thesis
    by (intro exI [of _ w1] exI [of _ w2] exI [of _ c1] exI [of _ k1]
        exI [of _ c2] exI [of _ k2]) simp
qed

text \<open>
  C9, as stated, fails: the host name \<open>./a\<close> contains a path separator, and the path
  computed for it leads to \<open>a.pem\<close> inside the cache directory.
\<close>

theorem separator_stays_inside:
  "has_separator ''./a'' \<and>
   host_filename_of example_ca ''./a'' = ''certs/./a.pem'' \<and>
   inside (self_certs_dir example_ca) (host_filename_of example_ca ''./a'') \<and>
   normpath (host_filename_of example_ca ''./a'') = [''certs'', ''a.pem'']"
  by (simp add: has_separator_def host_filename_of_eq example_ca_def inside_def
      normpath_def is_absolute_def)

text \<open>
  C9, amended. The cache file path is the cache directory, the path separator, the host
  name as given and the suffix \<open>.pem\<close>, concatenated: nothing of the host name is
  removed or replaced. It is the path every returning call reports. A host name with path
  separators can therefore lead outside the cache directory, as \<open>../x\<close> does, which
  leads to \<open>x.pem\<close> beside the directory.
\<close>

theorem host_filename_unsanitized:
  "host_filename_of self h = self_certs_dir self @ sep @ h @ ''.pem'' \<and>
   sep = ''/'' \<and>
   (get_cert_for_host self h overwrite w = (Inr (created, p), w') \<longrightarrow>
      p = self_certs_dir self @ ''/'' @ h @ ''.pem'') \<and>
   has_separator ''../x'' \<and>
   host_filename_of example_ca ''../x'' = ''certs/../x.pem'' \<and>
   \<not> inside (self_certs_dir example_ca) (host_filename_of example_ca ''../x'') \<and>
   normpath (host_filename_of example_ca ''../x'') = [''x.pem'']"
proof -
  have path: "get_cert_for_host self h overwrite w = (Inr (created, p), w') \<longrightarrow>
      p = self_certs_dir self @ ''/'' @ h @ ''.pem''"
  proof (cases "\<not> overwrite \<and> exists_path (host_filename_of self h) w")
    case True
    then show ?thesis
      by (simp add: get_cert_for_host_cached host_filename_of_eq)
  next
    case False
    then have "overwrite \<or> \<not> exists_path (host_filename_of self h) w" by blast
    then show ?thesis
      by (simp add: get_cert_for_host_issue_iff host_filename_of_eq)
  qed
  have escape: "has_separator ''../x'' \<and>
      host_filename_of example_ca ''../x'' = ''certs/../x.pem'' \<and>
      \<not> inside (self_certs_dir example_ca) (host_filename_of example_ca ''../x'') \<and>
      normpath (host_filename_of example_ca ''../x'') = [''x.pem'']"
    by (simp add: has_separator_def host_filename_of_eq example_ca_def inside_def
        normpath_def is_absolute_def)
  have formula: "host_filename_of self h = self_certs_dir self @ sep @ h @ ''.pem'' \<and>
      sep = ''/''"
    by (simp add: host_filename_of_def sep_def)
  from formula path escape show ?thesis by blast
qed

theorem host_filename_unsanitized_witness:
  "fst (get_cert_for_host example_ca ''a.test'' False example_world) =
     Inr (True, ''certs/a.test.pem'')"
proof -
  from example_first_issue obtain w1 where
    first: "get_cert_for_host example_ca ''a.test'' False example_world =
      (Inr (True, ''certs/a.test.pem''), w1)" ..
  with host_filename_unsanitized [of example_ca "''a.test''" False example_world True
      "''certs/a.test.pem''" w1]
  show ?thesis by simp
qed

section \<open>The root certificate\<close>

text \<open>
  C7. When the root path holds a file that the codec cannot decode and overwrite is
  false, \<open>generate_ca_root\<close> raises the parse error of the binding and changes no
  file: the file system is the one before the call, nothing is created or truncated, and
  neither generator is used. The only effect is that the file was opened for reading.
\<close>

theorem malformed_root_is_fatal:
  "fs w (or_default ca_file CERT_CA_FILE) = Some (File content) \<and> malformed content \<longrightarrow>
     generate_ca_root ca_file certname False w =
       (Inl ParseError, w\<lparr>log := log w @ [OpenRead (or_default ca_file CERT_CA_FILE)]\<rparr>) \<and>
     fs (snd (generate_ca_root ca_file certname False w)) = fs w"
  by (auto simp add: generate_ca_root_existing exists_path_def read_pem_result malformed_def
      Let_def split: option.splits)

theorem malformed_root_is_fatal_witness:
  "generate_ca_root (Some ''ca.pem'') (Some ''Test CA'') False truncated_world =
     (Inl ParseError, truncated_world\<lparr>log := [OpenRead ''ca.pem'']\<rparr>) \<and>
   fs (snd (generate_ca_root (Some ''ca.pem'') (Some ''Test CA'') False truncated_world)) =
     fs truncated_world"
proof -
  have "fs truncated_world (or_default (Some ''ca.pem'') CERT_CA_FILE) =
      Some (File [PrivateKeyPEM example_root_key, Malformed]) \<and>
    malformed [PrivateKeyPEM example_root_key, Malformed]"
    by (simp add: truncated_world_def or_default_def malformed_def)
  with malformed_root_is_fatal [of truncated_world "Some ''ca.pem''"
      "[PrivateKeyPEM example_root_key, Malformed]" "Some ''Test CA''"]
  show ?thesis
    by (simp add: or_default_def truncated_world_def example_world_def)
qed

lemma generate_ca_root_loads:
  assumes "\<not> overwrite"
    and "stored_cert w (or_default ca_file CERT_CA_FILE) = Some c"
    and "stored_key w (or_default ca_file CERT_CA_FILE) = Some k"
  shows "generate_ca_root ca_file certname overwrite w =
     (Inr (False, c, k), w\<lparr>log := log w @ [OpenRead (or_default ca_file CERT_CA_FILE)]\<rparr>)"
  using assms
  by (auto simp add: generate_ca_root_existing exists_path_def read_pem_result
      stored_cert_def stored_key_def Let_def split: option.splits node.splits)

lemma generate_ca_root_succeeds:
  assumes "overwrite \<or> \<not> exists_path (or_default ca_file CERT_CA_FILE) w"
    and "cn_accepted (or_default certname CERT_NAME)"
    and "or_default ca_file CERT_CA_FILE \<notin> denied w"
    and "fs w (or_default ca_file CERT_CA_FILE) \<noteq> Some Dir"
  shows "\<exists>c k w'. generate_ca_root ca_file certname overwrite w = (Inr (True, c, k), w')"
proof -
  define k where "k = \<lparr>pkey_type = TYPE_RSA, pkey_bits = 2048,
      pkey_material = ssl_keys w, has_private = True\<rparr>"
  define body where "body = \<lparr>version = 3,
      serial_number = int (py_random w (py_pos w)) mod 2 ^ 64,
      subject = \<lparr>CN = Some (c_string (or_default certname CERT_NAME))\<rparr>,
      issuer = \<lparr>CN = Some (c_string (or_default certname CERT_NAME))\<rparr>,
      notBefore = Some (now w), notAfter = Some (now w + CERT_DURATION),
      pubkey = Some (public_of k),
      extensions =
        [\<lparr>ext_name = ''basicConstraints'', ext_critical = True,
          ext_value = Conf ''CA:TRUE, pathlen:0''\<rparr>,
         \<lparr>ext_name = ''keyUsage'', ext_critical = True,
          ext_value = Conf ''keyCertSign, cRLSign''\<rparr>,
         \<lparr>ext_name = ''subjectKeyIdentifier'', ext_critical = False,
          ext_value = KeyIdentifier (public_of k)\<rparr>]\<rparr>"
  define c where "c = \<lparr>tbs = body,
      signature = Some \<lparr>sig_digest = ''sha1'', sig_signer = public_of k,
                        sig_over = body\<rparr>\<rparr>"
  have "\<exists>w'. generate_ca_root ca_file certname overwrite w = (Inr (True, c, k), w')"
    using assms by (simp add: generate_ca_root_create_iff c_def body_def k_def)
  then show ?thesis by blast
qed

lemma generate_ca_root_created:
  assumes "overwrite \<or> \<not> exists_path (or_default ca_file CERT_CA_FILE) w"
    and "generate_ca_root ca_file certname overwrite w = (Inr (created, c, k), w')"
  shows "created"
    and "k = \<lparr>pkey_type = TYPE_RSA, pkey_bits = 2048,
              pkey_material = ssl_keys w, has_private = True\<rparr>"
    and "tbs c = \<lparr>version = 3,
                serial_number = int (py_random w (py_pos w)) mod 2 ^ 64,
                subject = \<lparr>CN = Some (c_string (or_default certname CERT_NAME))\<rparr>,
                issuer = \<lparr>CN = Some (c_string (or_default certname CERT_NAME))\<rparr>,
                notBefore = Some (now w), notAfter = Some (now w + CERT_DURATION),
                pubkey = Some (public_of k),
                extensions =
                  [\<lparr>ext_name = ''basicConstraints'', ext_critical = True,
                    ext_value = Conf ''CA:TRUE, pathlen:0''\<rparr>,
                   \<lparr>ext_name = ''keyUsage'', ext_critical = True,
                    ext_value = Conf ''keyCertSign, cRLSign''\<rparr>,
                   \<lparr>ext_name = ''subjectKeyIdentifier'', ext_critical = False,
                    ext_value = KeyIdentifier (public_of k)\<rparr>]\<rparr>"
    and "signature c = Some \<lparr>sig_digest = ''sha1'', sig_signer = public_of k,
                             sig_over = tbs c\<rparr>"
    and "w' = w\<lparr>ssl_keys := ssl_keys w + 1, py_pos := py_pos w + 1,
                 log := log w @ [KeyGen TYPE_RSA 2048, Sign ''sha1'',
                                 OpenWrite (or_default ca_file CERT_CA_FILE)],
                 fs := (fs w)(or_default ca_file CERT_CA_FILE \<mapsto>
                          File [PrivateKeyPEM k, CertificatePEM c])\<rparr>"
  using assms by (simp_all add: generate_ca_root_create_iff)

text \<open>
  C3. \<open>generate_ca_root\<close> on a path \<open>p\<close> (the default one when none is given).
  Without overwrite and with a file at \<open>p\<close> from which the codec reads a certificate
  and a key, it returns \<open>created\<close> false with exactly that certificate and that key,
  and writes nothing. Otherwise, whenever it returns, \<open>created\<close> is true, the key is
  the 2048-bit RSA key generated in this call, with its private half, the certificate has
  its own subject as issuer, the given common name (up to its first NUL byte), the key's
  public half, the three extensions in the order basicConstraints (critical, CA:TRUE,
  pathlen:0), keyUsage (critical, keyCertSign, cRLSign), subjectKeyIdentifier (the hash
  of the key), and a signature made with the key, which verifies with it; the call
  advances the key generator and the random module by one, signs once, and changes the
  file system only at \<open>p\<close>, which holds the key followed by the certificate; a second
  call without overwrite returns \<open>created\<close> false with the same certificate and key.
  It does return for a common name of one to sixty-four ASCII characters and a path that
  can be written.
\<close>

theorem generate_ca_root_load_or_create:
  "(\<not> overwrite \<and> stored_cert w (or_default ca_file CERT_CA_FILE) = Some c0 \<and>
    stored_key w (or_default ca_file CERT_CA_FILE) = Some k0 \<longrightarrow>
      generate_ca_root ca_file certname overwrite w =
        (Inr (False, c0, k0),
         w\<lparr>log := log w @ [OpenRead (or_default ca_file CERT_CA_FILE)]\<rparr>)) \<and>
   ((overwrite \<or> \<not> exists_path (or_default ca_file CERT_CA_FILE) w) \<and>
    generate_ca_root ca_file certname overwrite w = (Inr (created, c, k), w') \<longrightarrow>
      created \<and>
      pkey_type k = TYPE_RSA \<and> pkey_bits k = 2048 \<and> has_private k \<and>
      pkey_material k = ssl_keys w \<and>
      issuer (tbs c) = subject (tbs c) \<and>
      CN (subject (tbs c)) = Some (c_string (or_default certname CERT_NAME)) \<and>
      pubkey (tbs c) = Some (public_of k) \<and>
      extensions (tbs c) =
        [\<lparr>ext_name = ''basicConstraints'', ext_critical = True,
          ext_value = Conf ''CA:TRUE, pathlen:0''\<rparr>,
         \<lparr>ext_name = ''keyUsage'', ext_critical = True,
          ext_value = Conf ''keyCertSign, cRLSign''\<rparr>,
         \<lparr>ext_name = ''subjectKeyIdentifier'', ext_critical = False,
          ext_value = KeyIdentifier (public_of k)\<rparr>] \<and>
      signature c = Some \<lparr>sig_digest = ''sha1'', sig_signer = public_of k,
                           sig_over = tbs c\<rparr> \<and>
      verify c k \<and> chains_to c c \<and>
      w' = w\<lparr>ssl_keys := ssl_keys w + 1, py_pos := py_pos w + 1,
             log := log w @ [KeyGen TYPE_RSA 2048, Sign ''sha1'',
                             OpenWrite (or_default ca_file CERT_CA_FILE)],
             fs := (fs w)(or_default ca_file CERT_CA_FILE \<mapsto>
                      File [PrivateKeyPEM k, CertificatePEM c])\<rparr> \<and>
      generate_ca_root ca_file certname False w' =
        (Inr (False, c, k),
         w'\<lparr>log := log w' @ [OpenRead (or_default ca_file CERT_CA_FILE)]\<rparr>)) \<and>
   ((overwrite \<or> \<not> exists_path (or_default ca_file CERT_CA_FILE) w) \<and>
    plain_ascii (or_default certname CERT_NAME) \<and>
    1 \<le> length (or_default certname CERT_NAME) \<and>
    length (or_default certname CERT_NAME) \<le> 64 \<and>
    or_default ca_file CERT_CA_FILE \<notin> denied w \<and>
    fs w (or_default ca_file CERT_CA_FILE) \<noteq> Some Dir \<longrightarrow>
      (\<exists>c k w'. generate_ca_root ca_file certname overwrite w = (Inr (True, c, k), w')))"
proof (intro conjI impI)
  assume "\<not> overwrite \<and> stored_cert w (or_default ca_file CERT_CA_FILE) = Some c0 \<and>
    stored_key w (or_default ca_file CERT_CA_FILE) = Some k0"
  then show "generate_ca_root ca_file certname overwrite w =
      (Inr (False, c0, k0), w\<lparr>log := log w @ [OpenRead (or_default ca_file CERT_CA_FILE)]\<rparr>)"
    by (simp add: generate_ca_root_loads)
next
  assume "(overwrite \<or> \<not> exists_path (or_default ca_file CERT_CA_FILE) w) \<and>
    plain_ascii (or_default certname CERT_NAME) \<and>
    1 \<le> length (or_default certname CERT_NAME) \<and>
    length (or_default certname CERT_NAME) \<le> 64 \<and>
    or_default ca_file CERT_CA_FILE \<notin> denied w \<and>
    fs w (or_default ca_file CERT_CA_FILE) \<noteq> Some Dir"
  then show "\<exists>c k w'. generate_ca_root ca_file certname overwrite w = (Inr (True, c, k), w')"
    by (intro generate_ca_root_succeeds) (simp_all add: cn_accepted_plain)
next
  assume run: "(overwrite \<or> \<not> exists_path (or_default ca_file CERT_CA_FILE) w) \<and>
    generate_ca_root ca_file certname overwrite w = (Inr (created, c, k), w')"
  note made = generate_ca_root_created [OF conjunct1 [OF run] conjunct2 [OF run]]
  show "created" by (rule made(1))
  show "pkey_type k = TYPE_RSA" "pkey_bits k = 2048" "has_private k"
      "pkey_material k = ssl_keys w"
    by (simp_all add: made(2))
  show "issuer (tbs c) = subject (tbs c)"
      "CN (subject (tbs c)) = Some (c_string (or_default certname CERT_NAME))"
      "pubkey (tbs c) = Some (public_of k)"
    by (simp_all add: made(3))
  show "extensions (tbs c) =
        [\<lparr>ext_name = ''basicConstraints'', ext_critical = True,
          ext_value = Conf ''CA:TRUE, pathlen:0''\<rparr>,
         \<lparr>ext_name = ''keyUsage'', ext_critical = True,
          ext_value = Conf ''keyCertSign, cRLSign''\<rparr>,
         \<lparr>ext_name = ''subjectKeyIdentifier'', ext_critical = False,
          ext_value = KeyIdentifier (public_of k)\<rparr>]"
    by (simp add: made(3))
  show "signature c = Some \<lparr>sig_digest = ''sha1'', sig_signer = public_of k,
      sig_over = tbs c\<rparr>"
    by (rule made(4))
  show "verify c k"
    by (simp add: verify_def made(4))
  have "pubkey (tbs c) = Some (public_of k)" "issuer (tbs c) = subject (tbs c)"
    by (simp_all add: made(3))
  then show "chains_to c c"
    using made(4) by (simp add: chains_to_def verify_def public_of_idem)
  show "w' = w\<lparr>ssl_keys := ssl_keys w + 1, py_pos := py_pos w + 1,
      log := log w @ [KeyGen TYPE_RSA 2048, Sign ''sha1'',
                      OpenWrite (or_default ca_file CERT_CA_FILE)],
      fs := (fs w)(or_default ca_file CERT_CA_FILE \<mapsto>
               File [PrivateKeyPEM k, CertificatePEM c])\<rparr>"
    by (rule made(5))
  then have written: "fs w' (or_default ca_file CERT_CA_FILE) =
      Some (File [PrivateKeyPEM k, CertificatePEM c])"
    by simp
  show "generate_ca_root ca_file certname False w' =
      (Inr (False, c, k), w'\<lparr>log := log w' @ [OpenRead (or_default ca_file CERT_CA_FILE)]\<rparr>)"
    by (rule generate_ca_root_loads) (simp_all add: stored_cert_def stored_key_def written)
qed

theorem generate_ca_root_load_or_create_witness:
  "\<exists>c k w1 w2.
     generate_ca_root (Some ''ca.pem'') (Some ''Test CA'') False empty_world =
       (Inr (True, c, k), w1) \<and>
     generate_ca_root (Some ''ca.pem'') (Some ''Test CA'') False w1 =
       (Inr (False, c, k), w2) \<and>
     pkey_type k = TYPE_RSA \<and> pkey_bits k = 2048 \<and> pkey_material k = 20 \<and>
     CN (subject (tbs c)) = Some ''Test CA'' \<and>
     issuer (tbs c) = subject (tbs c) \<and>
     map ext_name (extensions (tbs c)) =
       [''basicConstraints'', ''keyUsage'', ''subjectKeyIdentifier''] \<and>
     fs w1 ''ca.pem'' = Some (File [PrivateKeyPEM k, CertificatePEM c])"
proof -
  have path: "or_default (Some ''ca.pem'') CERT_CA_FILE = ''ca.pem''"
    and name: "or_default (Some ''Test CA'') CERT_NAME = ''Test CA''"
    by (simp_all add: or_default_def)
  have pre: "(False \<or> \<not> exists_path (or_default (Some ''ca.pem'') CERT_CA_FILE) empty_world) \<and>
      plain_ascii (or_default (Some ''Test CA'') CERT_NAME) \<and>
      1 \<le> length (or_default (Some ''Test CA'') CERT_NAME) \<and>
      length (or_default (Some ''Test CA'') CERT_NAME) \<le> 64 \<and>
      or_default (Some ''ca.pem'') CERT_CA_FILE \<notin> denied empty_world \<and>
      fs empty_world (or_default (Some ''ca.pem'') CERT_CA_FILE) \<noteq> Some Dir"
    by (simp add: path name plain_ascii_def exists_path_def empty_world_def
        example_world_def)
  note inst = generate_ca_root_load_or_create [where overwrite = False and w = empty_world
      and ca_file = "Some ''ca.pem''" and certname = "Some ''Test CA''"]
  from pre inst obtain c k w1 where
    run: "generate_ca_root (Some ''ca.pem'') (Some ''Test CA'') False empty_world =
      (Inr (True, c, k), w1)"
    by blast
  have absent: "False \<or> \<not> exists_path (or_default (Some ''ca.pem'') CERT_CA_FILE) empty_world"
    using pre by blast
  note facts = inst [where created = True and c = c and k = k and w' = w1,
      THEN conjunct2, THEN conjunct1, rule_format, OF conjI [OF absent run]]
  note facts' = facts [unfolded path name]
  have rnd: "ssl_keys empty_world = 20" "c_string ''Test CA'' = ''Test CA''"
    by (simp_all add: empty_world_def example_world_def c_string_def)
  from facts' have key: "pkey_type k = TYPE_RSA" "pkey_bits k = 2048"
      "pkey_material k = ssl_keys empty_world"
    by blast+
  from facts' have cert: "CN (subject (tbs c)) = Some (c_string ''Test CA'')"
      "issuer (tbs c) = subject (tbs c)"
    by blast+
  from facts' have exts: "extensions (tbs c) =
        [\<lparr>ext_name = ''basicConstraints'', ext_critical = True,
          ext_value = Conf ''CA:TRUE, pathlen:0''\<rparr>,
         \<lparr>ext_name = ''keyUsage'', ext_critical = True,
          ext_value = Conf ''keyCertSign, cRLSign''\<rparr>,
         \<lparr>ext_name = ''subjectKeyIdentifier'', ext_critical = False,
          ext_value = KeyIdentifier (public_of k)\<rparr>]"
    by blast
  from facts' have after: "w1 = empty_world\<lparr>ssl_keys := ssl_keys empty_world + 1,
      py_pos := py_pos empty_world + 1,
      log := log empty_world @ [KeyGen TYPE_RSA 2048, Sign ''sha1'', OpenWrite ''ca.pem''],
      fs := (fs empty_world)(''ca.pem'' \<mapsto> File [PrivateKeyPEM k, CertificatePEM c])\<rparr>"
    by blast
  have written: "fs w1 ''ca.pem'' = Some (File [PrivateKeyPEM k, CertificatePEM c])"
    by (subst after) simp
  from facts' have again: "generate_ca_root (Some ''ca.pem'') (Some ''Test CA'') False w1 =
      (Inr (False, c, k), w1\<lparr>log := log w1 @ [OpenRead ''ca.pem'']\<rparr>)"
    by blast
  show ?thesis
    by (rule exI [of _ c], rule exI [of _ k], rule exI [of _ w1],
        rule exI [of _ "w1\<lparr>log := log w1 @ [OpenRead ''ca.pem'']\<rparr>"])
      (simp add: run again key cert rnd written exts)
qed

section \<open>The certificate template\<close>

lemma make_cert_iff:
  "make_cert cn w = (Inr c, w') \<longleftrightarrow>
     (cn_accepted cn \<and>
      c = \<lparr>tbs = \<lparr>version = 3,
                    serial_number = int (py_random w (py_pos w)) mod 2 ^ 64,
                    subject = \<lparr>CN = Some (c_string cn)\<rparr>, issuer = \<lparr>CN = None\<rparr>,
                    notBefore = Some (now w), notAfter = Some (now w + CERT_DURATION),
                    pubkey = None, extensions = []\<rparr>,
             signature = None\<rparr> \<and>
      w' = w\<lparr>py_pos := py_pos w + 1\<rparr>)"
  by (auto simp add: make_cert_result)

text \<open>
  C5. The claim that the template has X.509 version 3 does not hold of the program.
  Whenever \<open>_make_cert\<close> returns a certificate, its version field is 3, the number
  the program hands to \<open>set_version\<close>; the field counts from zero, so the certificate
  is of X.509 version 4, and version 3 would be the field value 2. The rest of the
  template is as claimed: the serial number is the number drawn from the random module,
  which lies in \<open>[0, 2^64)\<close>, the common name of the subject is the given one (up to
  its first NUL byte), \<open>notBefore\<close> is the current time and \<open>notAfter\<close> the current
  time plus 100 * 365 * 24 * 60 * 60 seconds, and issuer, public key and signature are
  left unset. A root certificate that \<open>generate_ca_root\<close> creates and a host
  certificate that \<open>generate_host_cert\<close> issues have the same version field, serial
  range and validity.
\<close>

theorem make_cert_template:
  "(make_cert cn w = (Inr c, w') \<longrightarrow>
      version (tbs c) = 3 \<and> x509_version c = 4 \<and>
      0 \<le> serial_number (tbs c) \<and> serial_number (tbs c) < 2 ^ 64 \<and>
      serial_number (tbs c) = int (py_random w (py_pos w)) mod 2 ^ 64 \<and>
      CN (subject (tbs c)) = Some (c_string cn) \<and>
      notBefore (tbs c) = Some (now w) \<and>
      notAfter (tbs c) = Some (now w + 100 * 365 * 24 * 60 * 60) \<and>
      CN (issuer (tbs c)) = None \<and> pubkey (tbs c) = None \<and> signature c = None \<and>
      w' = w\<lparr>py_pos := py_pos w + 1\<rparr>) \<and>
   (plain_ascii cn \<and> 1 \<le> length cn \<and> length cn \<le> 64 \<longrightarrow>
      (\<exists>c w'. make_cert cn w = (Inr c, w'))) \<and>
   CERT_DURATION = 3153600000 \<and>
   ((overwrite \<or> \<not> exists_path (or_default ca_file CERT_CA_FILE) w) \<and>
    generate_ca_root ca_file certname overwrite w = (Inr (created, rc, rk), rw) \<longrightarrow>
      version (tbs rc) = 3 \<and> x509_version rc = 4 \<and>
      0 \<le> serial_number (tbs rc) \<and> serial_number (tbs rc) < 2 ^ 64 \<and>
      notBefore (tbs rc) = Some (now w) \<and>
      notAfter (tbs rc) = Some (now w + CERT_DURATION)) \<and>
   (generate_host_cert h root_cert root_key fn w = (Inr (hc, hk), hw) \<longrightarrow>
      version (tbs hc) = 3 \<and> x509_version hc = 4 \<and>
      0 \<le> serial_number (tbs hc) \<and> serial_number (tbs hc) < 2 ^ 64 \<and>
      notBefore (tbs hc) = Some (now w) \<and>
      notAfter (tbs hc) = Some (now w + CERT_DURATION))"
proof (intro conjI impI)
  assume "plain_ascii cn \<and> 1 \<le> length cn \<and> length cn \<le> 64"
  then show "\<exists>c w'. make_cert cn w = (Inr c, w')"
    by (simp add: make_cert_iff cn_accepted_plain)
next
  show "CERT_DURATION = 3153600000"
    by (simp add: CERT_DURATION_def)
next
  assume run: "(overwrite \<or> \<not> exists_path (or_default ca_file CERT_CA_FILE) w) \<and>
    generate_ca_root ca_file certname overwrite w = (Inr (created, rc, rk), rw)"
  note made = generate_ca_root_created [OF conjunct1 [OF run] conjunct2 [OF run]]
  show "version (tbs rc) = 3" "x509_version rc = 4" "0 \<le> serial_number (tbs rc)"
      "serial_number (tbs rc) < 2 ^ 64" "notBefore (tbs rc) = Some (now w)"
      "notAfter (tbs rc) = Some (now w + CERT_DURATION)"
    by (simp_all add: made(3) x509_version_def)
next
  assume run: "generate_host_cert h root_cert root_key fn w = (Inr (hc, hk), hw)"
  then have body: "tbs hc = \<lparr>version = 3,
      serial_number = int (py_random w (py_pos w)) mod 2 ^ 64,
      subject = \<lparr>CN = Some (c_string h)\<rparr>, issuer = subject (tbs root_cert),
      notBefore = Some (now w), notAfter = Some (now w + CERT_DURATION),
      pubkey = Some (public_of hk), extensions = []\<rparr>"
    by (simp add: generate_host_cert_iff)
  show "version (tbs hc) = 3" "x509_version hc = 4" "0 \<le> serial_number (tbs hc)"
      "serial_number (tbs hc) < 2 ^ 64" "notBefore (tbs hc) = Some (now w)"
      "notAfter (tbs hc) = Some (now w + CERT_DURATION)"
    by (simp_all add: body x509_version_def)
qed (auto simp add: make_cert_iff CERT_DURATION_def x509_version_def)

theorem make_cert_template_witness:
  "\<exists>c w'. make_cert ''example.com'' example_world = (Inr c, w') \<and>
     version (tbs c) = 3 \<and> x509_version c = 4 \<and> x509_version c \<noteq> 3 \<and>
     serial_number (tbs c) = 5 \<and>
     CN (subject (tbs c)) = Some ''example.com'' \<and>
     notBefore (tbs c) = Some 1000 \<and> notAfter (tbs c) = Some 3153601000"
proof -
  have len: "plain_ascii ''example.com'' \<and> 1 \<le> length ''example.com'' \<and>
      length ''example.com'' \<le> 64"
    by (simp add: plain_ascii_def)
  have src: "int (py_random example_world (py_pos example_world)) mod 2 ^ 64 = 5"
      "now example_world = 1000" "c_string ''example.com'' = ''example.com''"
    by (simp_all add: example_world_def c_string_def)
  note inst = make_cert_template [where cn = "''example.com''" and w = example_world]
  from len inst obtain c w' where
    run: "make_cert ''example.com'' example_world = (Inr c, w')"
    by blast
  note facts = inst [where c = c and w' = w', THEN conjunct1, rule_format, OF run]
  from facts have "version (tbs c) = 3" "x509_version c = 4"
      "serial_number (tbs c) = int (py_random example_world (py_pos example_world)) mod 2 ^ 64"
      "CN (subject (tbs c)) = Some (c_string ''example.com'')"
      "notBefore (tbs c) = Some (now example_world)"
      "notAfter (tbs c) = Some (now example_world + 100 * 365 * 24 * 60 * 60)"
    by blast+
  with run src show ?thesis
    by (intro exI [of _ c] exI [of _ w']) simp
qed

section \<open>Constructing the CertificateAuthority\<close>


lemma init_read_succeeds:
  assumes "stored_cert w (or_default ca_file CERT_CA_FILE) = Some c"
    and "stored_key w (or_default ca_file CERT_CA_FILE) = Some k"
  shows "CertificateAuthority_init ca_file certs_dir w =
     (let p = or_default ca_file CERT_CA_FILE;
          d = or_default certs_dir CERTS_DIR;
          self = \<lparr>self_ca_file = p, self_certs_dir = d, self_cert = c, self_key = k\<rparr>;
          w1 = w\<lparr>log := log w @ [OpenRead p]\<rparr>
      in if exists_path d w then (Inr self, w1)
         else if d \<in> denied w then (Inl OSError, w1\<lparr>log := log w1 @ [MkDir d]\<rparr>)
         else (Inr self, w1\<lparr>log := log w1 @ [MkDir d], fs := (fs w)(d \<mapsto> Dir)\<rparr>))"
  using assms
  by (auto simp add: CertificateAuthority_init_def and_then_def read_pem_result Let_def
      return_def mkdir_def exists_path_def stored_cert_def stored_key_def
      split: option.splits node.splits)






section \<open>Defaults for missing arguments\<close>

lemma or_default_falsy:
  "or_default None d = d" "or_default (Some []) d = d"
  by (simp_all add: or_default_def)

lemma init_fields:
  "CertificateAuthority_init ca_file certs_dir w = (Inr self, w') \<Longrightarrow>
   self_ca_file self = or_default ca_file CERT_CA_FILE \<and>
   self_certs_dir self = or_default certs_dir CERTS_DIR"
  by (auto simp add: CertificateAuthority_init_def and_then_def return_def Let_def
      split: prod.splits sum.splits if_splits)

lemma default_name_accepted:
  "plain_ascii CERT_NAME" "cn_accepted CERT_NAME" "c_string CERT_NAME = CERT_NAME"
proof -
  show plain: "plain_ascii CERT_NAME"
    by (simp add: plain_ascii_def CERT_NAME_def)
  then show "cn_accepted CERT_NAME"
    by (simp add: cn_accepted_plain) (simp add: CERT_NAME_def)
  from plain show "c_string CERT_NAME = CERT_NAME"
    by (rule c_string_plain)
qed

text \<open>
  C10. A falsy argument, \<open>None\<close> or the empty string, is replaced by the module's
  default: the constructor called with a falsy \<open>ca_file\<close> or \<open>certs_dir\<close> is the
  constructor called with \<open>./pywb-ca.pem\<close> or \<open>./pywb-certs/\<close>, and
  \<open>generate_ca_root\<close> called with a falsy \<open>ca_file\<close> or \<open>certname\<close> is
  \<open>generate_ca_root\<close> called with \<open>./pywb-ca.pem\<close> or
  \<open>pywb https proxy replay CA\<close>, on every world. Neither fails for want of the
  argument. With both arguments falsy, \<open>generate_ca_root\<close> returns a root it created
  whenever \<open>./pywb-ca.pem\<close> can be written and is absent or to be overwritten, the
  certificate has the common name \<open>pywb https proxy replay CA\<close> and the file
  \<open>./pywb-ca.pem\<close> holds the key and the certificate; without overwrite it returns
  the root it reads from \<open>./pywb-ca.pem\<close> when one is stored there. With both
  arguments falsy, the constructor returns whenever a root is stored at
  \<open>./pywb-ca.pem\<close> and \<open>./pywb-certs/\<close> is a directory or can be made, and the
  object it returns holds the default names, not the falsy values.
\<close>

theorem falsy_arguments_take_defaults:
  "((ca_file = None \<or> ca_file = Some '''') \<and> (certs_dir = None \<or> certs_dir = Some '''') \<and>
    CertificateAuthority_init ca_file certs_dir w = (Inr self, w') \<longrightarrow>
      self_ca_file self = ''./pywb-ca.pem'' \<and> self_certs_dir self = ''./pywb-certs/'') \<and>
   ((ca_file = None \<or> ca_file = Some '''') \<and> (certs_dir = None \<or> certs_dir = Some '''') \<and>
    stored_cert w ''./pywb-ca.pem'' = Some c \<and> stored_key w ''./pywb-ca.pem'' = Some k \<and>
    (fs w ''./pywb-certs/'' = Some Dir \<or>
     fs w ''./pywb-certs/'' = None \<and> ''./pywb-certs/'' \<notin> denied w) \<longrightarrow>
      (\<exists>w'. CertificateAuthority_init ca_file certs_dir w =
           (Inr \<lparr>self_ca_file = ''./pywb-ca.pem'', self_certs_dir = ''./pywb-certs/'',
                 self_cert = c, self_key = k\<rparr>, w') \<and>
         fs w' ''./pywb-certs/'' = Some Dir)) \<and>
   ((ca_file = None \<or> ca_file = Some '''') \<and> (certname = None \<or> certname = Some '''') \<and>
    (overwrite \<or> \<not> exists_path ''./pywb-ca.pem'' w) \<and>
    generate_ca_root ca_file certname overwrite w = (Inr (created, rc, rk), rw) \<longrightarrow>
      created \<and>
      CN (subject (tbs rc)) = Some ''pywb https proxy replay CA'' \<and>
      CN (issuer (tbs rc)) = Some ''pywb https proxy replay CA'' \<and>
      fs rw = (fs w)(''./pywb-ca.pem'' \<mapsto> File [PrivateKeyPEM rk, CertificatePEM rc])) \<and>
   ((ca_file = None \<or> ca_file = Some '''') \<and> (certname = None \<or> certname = Some '''') \<and>
    (overwrite \<or> \<not> exists_path ''./pywb-ca.pem'' w) \<and>
    ''./pywb-ca.pem'' \<notin> denied w \<and> fs w ''./pywb-ca.pem'' \<noteq> Some Dir \<longrightarrow>
      (\<exists>rc rk rw. generate_ca_root ca_file certname overwrite w = (Inr (True, rc, rk), rw))) \<and>
   ((ca_file = None \<or> ca_file = Some '''') \<and> \<not> overwrite \<and>
    stored_cert w ''./pywb-ca.pem'' = Some c \<and> stored_key w ''./pywb-ca.pem'' = Some k \<longrightarrow>
      generate_ca_root ca_file certname overwrite w =
        (Inr (False, c, k), w\<lparr>log := log w @ [OpenRead ''./pywb-ca.pem'']\<rparr>)) \<and>
   CertificateAuthority_init None certs_dir =
     CertificateAuthority_init (Some ''./pywb-ca.pem'') certs_dir \<and>
   CertificateAuthority_init (Some '''') certs_dir =
     CertificateAuthority_init (Some ''./pywb-ca.pem'') certs_dir \<and>
   CertificateAuthority_init ca_file None =
     CertificateAuthority_init ca_file (Some ''./pywb-certs/'') \<and>
   CertificateAuthority_init ca_file (Some '''') =
     CertificateAuthority_init ca_file (Some ''./pywb-certs/'') \<and>
   generate_ca_root None certname overwrite =
     generate_ca_root (Some ''./pywb-ca.pem'') certname overwrite \<and>
   generate_ca_root (Some '''') certname overwrite =
     generate_ca_root (Some ''./pywb-ca.pem'') certname overwrite \<and>
   generate_ca_root ca_file None overwrite =
     generate_ca_root ca_file (Some ''pywb https proxy replay CA'') overwrite \<and>
   generate_ca_root ca_file (Some '''') overwrite =
     generate_ca_root ca_file (Some ''pywb https proxy replay CA'') overwrite \<and>
   CERT_CA_FILE = ''./pywb-ca.pem'' \<and> CERTS_DIR = ''./pywb-certs/'' \<and>
   CERT_NAME = ''pywb https proxy replay CA''"
proof (intro conjI impI)
  assume "(ca_file = None \<or> ca_file = Some '''') \<and> (certs_dir = None \<or> certs_dir = Some '''') \<and>
    CertificateAuthority_init ca_file certs_dir w = (Inr self, w')"
  then have "self_ca_file self = ''./pywb-ca.pem'' \<and> self_certs_dir self = ''./pywb-certs/''"
    using init_fields [of ca_file certs_dir w self w']
    by (auto simp add: or_default_falsy CERT_CA_FILE_def CERTS_DIR_def)
  then show "self_ca_file self = ''./pywb-ca.pem''" "self_certs_dir self = ''./pywb-certs/''"
    by simp_all
next
  assume pre: "(ca_file = None \<or> ca_file = Some '''') \<and>
    (certs_dir = None \<or> certs_dir = Some '''') \<and>
    stored_cert w ''./pywb-ca.pem'' = Some c \<and> stored_key w ''./pywb-ca.pem'' = Some k \<and>
    (fs w ''./pywb-certs/'' = Some Dir \<or>
     fs w ''./pywb-certs/'' = None \<and> ''./pywb-certs/'' \<notin> denied w)"
  then have names: "or_default ca_file CERT_CA_FILE = ''./pywb-ca.pem''"
      "or_default certs_dir CERTS_DIR = ''./pywb-certs/''"
    by (auto simp add: or_default_falsy CERT_CA_FILE_def CERTS_DIR_def)
  from pre have stored: "stored_cert w (or_default ca_file CERT_CA_FILE) = Some c"
      "stored_key w (or_default ca_file CERT_CA_FILE) = Some k"
    by (simp_all add: names)
  from pre show "\<exists>w'. CertificateAuthority_init ca_file certs_dir w =
           (Inr \<lparr>self_ca_file = ''./pywb-ca.pem'', self_certs_dir = ''./pywb-certs/'',
                 self_cert = c, self_key = k\<rparr>, w') \<and>
         fs w' ''./pywb-certs/'' = Some Dir"
    by (auto simp add: init_read_succeeds [OF stored] names Let_def exists_path_def)
next
  assume pre: "(ca_file = None \<or> ca_file = Some '''') \<and>
    (certname = None \<or> certname = Some '''') \<and>
    (overwrite \<or> \<not> exists_path ''./pywb-ca.pem'' w) \<and>
    generate_ca_root ca_file certname overwrite w = (Inr (created, rc, rk), rw)"
  then have names: "or_default ca_file CERT_CA_FILE = ''./pywb-ca.pem''"
      "or_default certname CERT_NAME = CERT_NAME"
    by (auto simp add: or_default_falsy CERT_CA_FILE_def)
  from pre have branch: "overwrite \<or> \<not> exists_path (or_default ca_file CERT_CA_FILE) w"
    by (simp add: names)
  from pre have run: "generate_ca_root ca_file certname overwrite w =
      (Inr (created, rc, rk), rw)"
    by simp
  note made = generate_ca_root_created [OF branch run, unfolded names]
  show "created" by (rule made(1))
  show "CN (subject (tbs rc)) = Some ''pywb https proxy replay CA''"
      "CN (issuer (tbs rc)) = Some ''pywb https proxy replay CA''"
    using default_name_accepted(3) by (simp_all add: made(3)) (simp_all add: CERT_NAME_def)
  show "fs rw = (fs w)(''./pywb-ca.pem'' \<mapsto> File [PrivateKeyPEM rk, CertificatePEM rc])"
    by (subst made(5)) simp
next
  assume pre: "(ca_file = None \<or> ca_file = Some '''') \<and>
    (certname = None \<or> certname = Some '''') \<and>
    (overwrite \<or> \<not> exists_path ''./pywb-ca.pem'' w) \<and>
    ''./pywb-ca.pem'' \<notin> denied w \<and> fs w ''./pywb-ca.pem'' \<noteq> Some Dir"
  then have names: "or_default ca_file CERT_CA_FILE = ''./pywb-ca.pem''"
      "or_default certname CERT_NAME = CERT_NAME"
    by (auto simp add: or_default_falsy CERT_CA_FILE_def)
  from pre show "\<exists>rc rk rw. generate_ca_root ca_file certname overwrite w =
      (Inr (True, rc, rk), rw)"
    by (intro generate_ca_root_succeeds) (simp_all add: names default_name_accepted)
next
  assume pre: "(ca_file = None \<or> ca_file = Some '''') \<and> \<not> overwrite \<and>
    stored_cert w ''./pywb-ca.pem'' = Some c \<and> stored_key w ''./pywb-ca.pem'' = Some k"
  then have names: "or_default ca_file CERT_CA_FILE = ''./pywb-ca.pem''"
    by (auto simp add: or_default_falsy CERT_CA_FILE_def)
  from pre have "generate_ca_root ca_file certname overwrite w =
      (Inr (False, c, k), w\<lparr>log := log w @ [OpenRead (or_default ca_file CERT_CA_FILE)]\<rparr>)"
    by (intro generate_ca_root_loads) (simp_all add: names)
  then show "generate_ca_root ca_file certname overwrite w =
      (Inr (False, c, k), w\<lparr>log := log w @ [OpenRead ''./pywb-ca.pem'']\<rparr>)"
    by (simp add: names)
qed (simp_all add: CertificateAuthority_init_def generate_ca_root_def or_default_def
    CERT_CA_FILE_def CERTS_DIR_def CERT_NAME_def)

theorem falsy_arguments_take_defaults_witness:
  "(\<exists>rc rk rw.
      generate_ca_root None (Some '''') False empty_world = (Inr (True, rc, rk), rw) \<and>
      CN (subject (tbs rc)) = Some ''pywb https proxy replay CA'' \<and>
      fs rw ''./pywb-ca.pem'' = Some (File [PrivateKeyPEM rk, CertificatePEM rc])) \<and>
   (\<exists>w'. CertificateAuthority_init None (Some '''') default_world =
      (Inr \<lparr>self_ca_file = ''./pywb-ca.pem'', self_certs_dir = ''./pywb-certs/'',
            self_cert = example_root_cert, self_key = example_root_key\<rparr>, w') \<and>
      fs w' ''./pywb-certs/'' = Some Dir)"
proof (intro conjI)
  have falsy: "(None :: string option) = None \<or> (None :: string option) = Some ''''"
      "Some '''' = (None :: string option) \<or> Some '''' = Some ''''"
    by simp_all
  have absent: "False \<or> \<not> exists_path ''./pywb-ca.pem'' empty_world"
      "''./pywb-ca.pem'' \<notin> denied empty_world"
      "fs empty_world ''./pywb-ca.pem'' \<noteq> Some Dir"
    by (simp_all add: exists_path_def empty_world_def example_world_def)
  note inst = falsy_arguments_take_defaults [where ca_file = None and certname = "Some ''''"
      and overwrite = False and w = empty_world]
  note total = inst [THEN conjunct2, THEN conjunct2, THEN conjunct2, THEN conjunct1,
      rule_format]
  from total falsy absent obtain rc rk rw where
    run: "generate_ca_root None (Some '''') False empty_world = (Inr (True, rc, rk), rw)"
    by blast
  note made = inst [where created = True and rc = rc and rk = rk and rw = rw,
      THEN conjunct2, THEN conjunct2, THEN conjunct1, rule_format]
  from made falsy absent(1) run
  have name: "CN (subject (tbs rc)) = Some ''pywb https proxy replay CA''"
    and files: "fs rw = (fs empty_world)(''./pywb-ca.pem'' \<mapsto>
        File [PrivateKeyPEM rk, CertificatePEM rc])"
    by blast+
  from files have "fs rw ''./pywb-ca.pem'' =
      Some (File [PrivateKeyPEM rk, CertificatePEM rc])"
    by simp
  with run name show "\<exists>rc rk rw.
      generate_ca_root None (Some '''') False empty_world = (Inr (True, rc, rk), rw) \<and>
      CN (subject (tbs rc)) = Some ''pywb https proxy replay CA'' \<and>
      fs rw ''./pywb-ca.pem'' = Some (File [PrivateKeyPEM rk, CertificatePEM rc])"
    by blast
next
  have falsy: "(None :: string option) = None \<or> (None :: string option) = Some ''''"
      "Some '''' = (None :: string option) \<or> Some '''' = Some ''''"
    by simp_all
  have stored: "stored_cert default_world ''./pywb-ca.pem'' = Some example_root_cert"
      "stored_key default_world ''./pywb-ca.pem'' = Some example_root_key"
      "fs default_world ''./pywb-certs/'' = Some Dir \<or>
       fs default_world ''./pywb-certs/'' = None \<and> ''./pywb-certs/'' \<notin> denied default_world"
    by (simp_all add: stored_cert_def stored_key_def default_world_def example_world_def)
  note inst = falsy_arguments_take_defaults [where ca_file = None and certs_dir = "Some ''''"
      and w = default_world and c = example_root_cert and k = example_root_key,
      THEN conjunct2, THEN conjunct1, rule_format]
  from inst falsy stored show "\<exists>w'. CertificateAuthority_init None (Some '''') default_world =
      (Inr \<lparr>self_ca_file = ''./pywb-ca.pem'', self_certs_dir = ''./pywb-certs/'',
            self_cert = example_root_cert, self_key = example_root_key\<rparr>, w') \<and>
      fs w' ''./pywb-certs/'' = Some Dir"
    by blast
qed

end
